theory Spec2Isabelle
  imports Complex_Main
begin

section \<open>JavaScript values\<close>

text \<open>
  The configuration nodes handed to the constructors come from the Homebridge
  configuration, and the properties of the objects hold whatever the constructors copied
  out of them. A value is therefore kept with its JavaScript type. A number is the real
  a double stands for; \<open>JNaN\<close> is the one other number the code can produce itself
  (\<open>undefined * 1000.0\<close>). Comparisons of doubles are exact, so they are those of the
  reals; the arithmetic of doubles rounds, and is a parameter (\<open>arithmetic\<close> below).
  Infinities are outside the model.
\<close>

datatype jsval =
    JUndefined
  | JNull
  | JBoolean bool
  | JNumber real
  | JNaN
  | JString string
  | JArray "jsval list"
  | JObject "(string \<times> jsval) list"

text \<open>\<open>typeof(v)\<close>.\<close>

fun typeof :: "jsval \<Rightarrow> string" where
  "typeof JUndefined = ''undefined''"
| "typeof JNull = ''object''"
| "typeof (JBoolean b) = ''boolean''"
| "typeof (JNumber x) = ''number''"
| "typeof JNaN = ''number''"
| "typeof (JString s) = ''string''"
| "typeof (JArray xs) = ''object''"
| "typeof (JObject kvs) = ''object''"

text \<open>
  \<open>o.hasOwnProperty(k)\<close> and the property read \<open>o.k\<close> on a configuration node
  (a plain object; a missing property reads as \<open>undefined\<close>). The call reaches the
  method every object inherits, which is \<open>hasOwnProperty\<close> below, unless the node has an
  own property of the name \<open>hasOwnProperty\<close>: no value of a configuration is a function,
  so the call then throws a \<open>TypeError\<close>. Every model of a method that makes the call
  tests \<open>hasOwnProperty_shadowed\<close> first.
\<close>

type_synonym config = "(string \<times> jsval) list"

definition hasOwnProperty :: "config \<Rightarrow> string \<Rightarrow> bool" where
  "hasOwnProperty c k = (map_of c k \<noteq> None)"

definition hasOwnProperty_shadowed :: "config \<Rightarrow> bool" where
  "hasOwnProperty_shadowed c = (map_of c ''hasOwnProperty'' \<noteq> None)"

definition js_get :: "config \<Rightarrow> string \<Rightarrow> jsval" where
  "js_get c k = (case map_of c k of None \<Rightarrow> JUndefined | Some v \<Rightarrow> v)"

text \<open>
  The abstract operation ToNumber. Its value on strings and objects is the language's
  parser, which is no part of this repository: it is the parameter \<open>coerce\<close>, and every
  theorem below holds for each choice of it.
\<close>

fun ToNumber :: "(jsval \<Rightarrow> jsval) \<Rightarrow> jsval \<Rightarrow> jsval" where
  "ToNumber coerce JUndefined = JNaN"
| "ToNumber coerce JNull = JNumber 0"
| "ToNumber coerce (JBoolean b) = JNumber (if b then 1 else 0)"
| "ToNumber coerce (JNumber x) = JNumber x"
| "ToNumber coerce JNaN = JNaN"
| "ToNumber coerce v = (case coerce v of JNumber x \<Rightarrow> JNumber x | _ \<Rightarrow> JNaN)"

text \<open>
  The arithmetic of doubles. Each operation gives the double nearest to the exact
  result; which double that is depends on the rounding of the machine, which is no part
  of this repository. The operations are the fields of the parameter \<open>ar\<close>, and every
  theorem below holds for each choice of them.
\<close>

record arithmetic =
  fl_times :: "real \<Rightarrow> real \<Rightarrow> real"
  fl_divide :: "real \<Rightarrow> real \<Rightarrow> real"
  fl_minus :: "real \<Rightarrow> real \<Rightarrow> real"

text \<open>
  \<open>a * b\<close>, and \<open>a >= b\<close> and \<open>a <= b\<close> where at least one operand is a number (two
  strings would be compared as strings).
\<close>

definition js_times ::
  "arithmetic \<Rightarrow> (jsval \<Rightarrow> jsval) \<Rightarrow> jsval \<Rightarrow> jsval \<Rightarrow> jsval" where
  "js_times ar coerce a b =
     (case (ToNumber coerce a, ToNumber coerce b) of
        (JNumber x, JNumber y) \<Rightarrow> JNumber (fl_times ar x y)
      | _ \<Rightarrow> JNaN)"

definition js_ge :: "(jsval \<Rightarrow> jsval) \<Rightarrow> jsval \<Rightarrow> jsval \<Rightarrow> bool" where
  "js_ge coerce a b =
     (case (ToNumber coerce a, ToNumber coerce b) of
        (JNumber x, JNumber y) \<Rightarrow> x \<ge> y
      | _ \<Rightarrow> False)"

definition js_le :: "(jsval \<Rightarrow> jsval) \<Rightarrow> jsval \<Rightarrow> jsval \<Rightarrow> bool" where
  "js_le coerce a b = js_ge coerce b a"

text \<open>Truthiness, as the condition of an \<open>if\<close> and the operand of \<open>!\<close> read a value.\<close>

fun truthy :: "jsval \<Rightarrow> bool" where
  "truthy JUndefined = False"
| "truthy JNull = False"
| "truthy (JBoolean b) = b"
| "truthy (JNumber x) = (x \<noteq> 0)"
| "truthy JNaN = False"
| "truthy (JString s) = (s \<noteq> [])"
| "truthy (JArray xs) = True"
| "truthy (JObject kvs) = True"

section \<open>sensorBase.js and the enumerations of doorCntrl.js\<close>

datatype SENSOR_RESULT = SR_UNKNOWN | SR_UNDETECTED | SR_DETECTED

datatype DOOR_STATE = DOOR_UNKNOWN | DOOR_OPEN | DOOR_OPENING | DOOR_CLOSING | DOOR_CLOSED

section \<open>DoorController._determineDoorState\<close>

text \<open>
  The method reads the two sensors' \<open>Result\<close> and \<open>this.DoorState\<close>; they are the three
  arguments. The local \<open>doorState\<close> starts as \<open>UNKNOWN\<close>; a first chain of
  \<open>if / else if\<close> handles an open sensor that is unknown or undetected, and a second,
  separate chain handles an open sensor that is detected. In the \<open>switch\<close> of the
  (undetected, undetected) branch the cases \<open>OPENING\<close>, \<open>CLOSING\<close> and \<open>default\<close> assign
  nothing, so the local keeps its initial value.
\<close>

definition determineDoorState_first_chain ::
  "SENSOR_RESULT \<Rightarrow> SENSOR_RESULT \<Rightarrow> DOOR_STATE \<Rightarrow> DOOR_STATE \<Rightarrow> DOOR_STATE" where
  "determineDoorState_first_chain openResult closedResult DoorState doorState =
     (if openResult = SR_UNKNOWN \<and> closedResult = SR_UNKNOWN then DOOR_UNKNOWN
      else if openResult = SR_UNKNOWN \<and> closedResult = SR_UNDETECTED then DOOR_OPEN
      else if openResult = SR_UNKNOWN \<and> closedResult = SR_DETECTED then DOOR_CLOSED
      else if openResult = SR_UNDETECTED \<and> closedResult = SR_UNKNOWN then DOOR_CLOSED
      else if openResult = SR_UNDETECTED \<and> closedResult = SR_UNDETECTED then
        (case DoorState of
           DOOR_OPEN \<Rightarrow> DOOR_CLOSING
         | DOOR_CLOSED \<Rightarrow> DOOR_OPENING
         | DOOR_UNKNOWN \<Rightarrow> DOOR_UNKNOWN
         | DOOR_OPENING \<Rightarrow> doorState
         | DOOR_CLOSING \<Rightarrow> doorState)
      else if openResult = SR_UNDETECTED \<and> closedResult = SR_DETECTED then DOOR_CLOSED
      else doorState)"

definition determineDoorState_second_chain ::
  "SENSOR_RESULT \<Rightarrow> SENSOR_RESULT \<Rightarrow> DOOR_STATE \<Rightarrow> DOOR_STATE" where
  "determineDoorState_second_chain openResult closedResult doorState =
     (if openResult = SR_DETECTED \<and> closedResult = SR_UNKNOWN then DOOR_OPEN
      else if openResult = SR_DETECTED \<and> closedResult = SR_UNDETECTED then DOOR_OPEN
      else if openResult = SR_DETECTED \<and> closedResult = SR_DETECTED then DOOR_UNKNOWN
      else doorState)"

definition determineDoorState ::
  "SENSOR_RESULT \<Rightarrow> SENSOR_RESULT \<Rightarrow> DOOR_STATE \<Rightarrow> DOOR_STATE" where
  "determineDoorState openResult closedResult DoorState =
     determineDoorState_second_chain openResult closedResult
       (determineDoorState_first_chain openResult closedResult DoorState DOOR_UNKNOWN)"

text \<open>
  The table of section 4.3 of the specification, written from its words: the row
  (undetected, undetected) keeps a previous state of opening or closing.
\<close>

fun spec_resolver_table :: "SENSOR_RESULT \<Rightarrow> SENSOR_RESULT \<Rightarrow> DOOR_STATE \<Rightarrow> DOOR_STATE" where
  "spec_resolver_table SR_UNKNOWN SR_UNKNOWN p = DOOR_UNKNOWN"
| "spec_resolver_table SR_UNKNOWN SR_UNDETECTED p = DOOR_OPEN"
| "spec_resolver_table SR_UNKNOWN SR_DETECTED p = DOOR_CLOSED"
| "spec_resolver_table SR_UNDETECTED SR_UNKNOWN p = DOOR_CLOSED"
| "spec_resolver_table SR_UNDETECTED SR_UNDETECTED DOOR_OPEN = DOOR_CLOSING"
| "spec_resolver_table SR_UNDETECTED SR_UNDETECTED DOOR_CLOSED = DOOR_OPENING"
| "spec_resolver_table SR_UNDETECTED SR_UNDETECTED DOOR_UNKNOWN = DOOR_UNKNOWN"
| "spec_resolver_table SR_UNDETECTED SR_UNDETECTED DOOR_OPENING = DOOR_OPENING"
| "spec_resolver_table SR_UNDETECTED SR_UNDETECTED DOOR_CLOSING = DOOR_CLOSING"
| "spec_resolver_table SR_UNDETECTED SR_DETECTED p = DOOR_CLOSED"
| "spec_resolver_table SR_DETECTED SR_UNKNOWN p = DOOR_OPEN"
| "spec_resolver_table SR_DETECTED SR_UNDETECTED p = DOOR_OPEN"
| "spec_resolver_table SR_DETECTED SR_DETECTED p = DOOR_UNKNOWN"

section \<open>Timers of the event loop\<close>

text \<open>
  \<open>setTimeout\<close> and \<open>clearTimeout\<close> of the runtime. An object's record extends
  \<open>event_loop\<close>: the clock in milliseconds, the next timer handle, and the timers that
  are armed, in the order they were set. A timer holds the callback it will run, with
  the arguments \<open>setTimeout\<close> was given. The runtime sets a delay under 1 ms, or over
  \<open>2^31 - 1\<close> ms, to 1 ms.
\<close>

record 'cb timer =
  timer_id :: nat
  due :: nat
  callback :: 'cb

record 'cb event_loop =
  now :: nat
  nextTimerId :: nat
  timers :: "'cb timer list"

definition timeout_delay :: "nat \<Rightarrow> nat" where
  "timeout_delay ms = (if 1 \<le> ms \<and> ms \<le> 2147483647 then ms else 1)"

definition setTimeout ::
  "'cb \<Rightarrow> nat \<Rightarrow> ('cb, 'z) event_loop_scheme \<Rightarrow> nat \<times> ('cb, 'z) event_loop_scheme" where
  "setTimeout cb ms e =
     (nextTimerId e,
      e\<lparr>timers := timers e @
           [\<lparr>timer_id = nextTimerId e, due = now e + timeout_delay ms, callback = cb\<rparr>],
        nextTimerId := Suc (nextTimerId e)\<rparr>)"

definition clearTimeout :: "nat \<Rightarrow> ('cb, 'z) event_loop_scheme \<Rightarrow> ('cb, 'z) event_loop_scheme" where
  "clearTimeout i e = e\<lparr>timers := filter (\<lambda>t. timer_id t \<noteq> i) (timers e)\<rparr>"

text \<open>
  The timer the loop runs next, among those due by the time \<open>t\<close>: the earliest one, and
  of two that are due together the one set first.
\<close>

fun earliest :: "'cb timer list \<Rightarrow> 'cb timer option" where
  "earliest [] = None"
| "earliest (x # xs) =
     (case earliest xs of
        None \<Rightarrow> Some x
      | Some y \<Rightarrow> if due x \<le> due y then Some x else Some y)"

definition next_due :: "nat \<Rightarrow> 'cb timer list \<Rightarrow> 'cb timer option" where
  "next_due t ts = earliest (filter (\<lambda>x. due x \<le> t) ts)"

text \<open>
  The loop up to the time \<open>t\<close>, with no event from outside: it takes the next due timer
  off the list, moves the clock to its time and runs its callback (\<open>fire\<close>, which gets the
  timer's handle), until none is due; then the clock stands at \<open>t\<close>. A callback may arm
  timers, so the loop has fuel; \<open>None\<close> says the fuel ran out with a timer still due.
\<close>

fun run_timers ::
  "(nat \<Rightarrow> 'cb \<Rightarrow> ('cb, 'z) event_loop_scheme \<Rightarrow> ('cb, 'z) event_loop_scheme) \<Rightarrow>
   nat \<Rightarrow> nat \<Rightarrow> ('cb, 'z) event_loop_scheme \<Rightarrow> ('cb, 'z) event_loop_scheme option" where
  "run_timers fire 0 t e =
     (case next_due t (timers e) of
        None \<Rightarrow> Some (e\<lparr>now := max (now e) t\<rparr>)
      | Some x \<Rightarrow> None)"
| "run_timers fire (Suc fuel) t e =
     (case next_due t (timers e) of
        None \<Rightarrow> Some (e\<lparr>now := max (now e) t\<rparr>)
      | Some x \<Rightarrow>
          run_timers fire fuel t
            (fire (timer_id x) (callback x)
               (clearTimeout (timer_id x) (e\<lparr>now := max (now e) (due x)\<rparr>))))"

section \<open>doorCntrl.js: the door controller at run time\<close>

definition DOOR_CNTRL_SWITCH_DEBOUNCE :: nat where
  "DOOR_CNTRL_SWITCH_DEBOUNCE = 500"

definition DOOR_CTRL_REQ_TIME :: nat where
  "DOOR_CTRL_REQ_TIME = 100"

definition DOOR_ACTIVATION_TIMEOUT :: nat where
  "DOOR_ACTIVATION_TIMEOUT = 30000"

definition DOOR_TOTAL_IDENTIFICATION_TIMEOUT :: nat where
  "DOOR_TOTAL_IDENTIFICATION_TIMEOUT = 5000"

definition DOOR_IDENTIFICATION_TOGGLE_TIMEOUT :: nat where
  "DOOR_IDENTIFICATION_TOGGLE_TIMEOUT = 100"

text \<open>
  The callbacks the door hands to \<open>setTimeout\<close>: the debounced manual request
  (\<open>() => this._doActivateDoor(true)\<close>), the activation watchdog
  (\<open>(oldDoorState) => this._updateDoorState(oldDoorState)\<close> with the state it was given),
  \<open>_gpiop.write\<close> with a channel and a level, the emission of \<open>state_change\<close> with the
  previous and the new state, and the continuation of \<open>IdentifyDoor\<close> after the delay of
  its toggle number \<open>count\<close>.
\<close>

datatype door_callback =
    CB_doActivateDoor
  | CB_watchdog DOOR_STATE
  | CB_gpio_write jsval bool
  | CB_emit_state_change DOOR_STATE DOOR_STATE
  | CB_identify nat

text \<open>
  The fields of a constructed door, the results its two sensors hold
  (\<open>this._openSensor.Result\<close>, \<open>this._closedSensor.Result\<close>), and what the door has done
  to the outside: the writes to GPIO lines that completed and the \<open>state_change\<close> events
  it emitted, both in order. The name, the channels and the lock are kept as the values
  the constructor copied from the configuration.
\<close>

record DoorController = "door_callback event_loop" +
  name :: jsval
  gpioChanStateIndicator :: jsval
  gpioChanCtrlRequest :: jsval
  gpioManualCtrlRequest :: jsval
  openSensor_Result :: SENSOR_RESULT
  closedSensor_Result :: SENSOR_RESULT
  currentDoorState :: DOOR_STATE
  targetDoorState :: DOOR_STATE
  doorLocked :: jsval
  debounceTimerIdDoorCntrl :: "nat option"
  doorActivationWatchdogId :: "nat option"
  initialized :: bool
  gpio_written :: "(jsval \<times> bool) list"
  state_change_emitted :: "(DOOR_STATE \<times> DOOR_STATE) list"

text \<open>
  \<open>_gpiop.write(channel, level)\<close>: the flag \<open>ok\<close> says whether the write succeeds. A write
  that fails changes no line. \<open>_gpiop.read(channel)\<close> gives the level last written
  (a line is set up low).
\<close>

definition gpio_write :: "bool \<Rightarrow> jsval \<Rightarrow> bool \<Rightarrow> DoorController \<Rightarrow> DoorController" where
  "gpio_write ok channel level d =
     (if ok then d\<lparr>gpio_written := gpio_written d @ [(channel, level)]\<rparr> else d)"

definition gpio_read :: "jsval \<Rightarrow> DoorController \<Rightarrow> bool" where
  "gpio_read channel d =
     (case filter (\<lambda>w. fst w = channel) (rev (gpio_written d)) of
        [] \<Rightarrow> False
      | w # ws \<Rightarrow> snd w)"

definition DoorState :: "DoorController \<Rightarrow> DOOR_STATE" where
  "DoorState d = currentDoorState d"

definition DoorOpen :: "DoorController \<Rightarrow> bool" where
  "DoorOpen d = (if DOOR_OPEN = DoorState d then True else False)"

definition DoorClosed :: "DoorController \<Rightarrow> bool" where
  "DoorClosed d = (if DOOR_CLOSED = DoorState d then True else False)"

definition DoorLocked :: "DoorController \<Rightarrow> jsval" where
  "DoorLocked d = doorLocked d"

text \<open>The setter \<open>set DoorLocked(locked)\<close>.\<close>

definition set_DoorLocked :: "jsval \<Rightarrow> DoorController \<Rightarrow> DoorController" where
  "set_DoorLocked locked d =
     (if typeof locked = ''boolean'' then d\<lparr>doorLocked := locked\<rparr> else d)"

text \<open>\<open>if (id != undefined) { clearTimeout(id); }\<close> on a field that holds a timer handle.\<close>

definition clear_if_defined ::
  "nat option \<Rightarrow> ('cb, 'z) event_loop_scheme \<Rightarrow> ('cb, 'z) event_loop_scheme" where
  "clear_if_defined h e = (case h of None \<Rightarrow> e | Some i \<Rightarrow> clearTimeout i e)"

text \<open>
  \<open>_updateDoorState(newDoorState)\<close>. The write to the indicator is not awaited; \<open>ok\<close>
  says whether it succeeds. The event is emitted from a timer of delay 0.
\<close>

definition updateDoorState :: "bool \<Rightarrow> DOOR_STATE \<Rightarrow> DoorController \<Rightarrow> DoorController" where
  "updateDoorState ok newDoorState d =
     (let lastState = DoorState d;
          d1 = d\<lparr>currentDoorState := newDoorState\<rparr>;
          d2 = gpio_write ok (gpioChanStateIndicator d1) (\<not> DoorClosed d1) d1;
          d3 = clear_if_defined (doorActivationWatchdogId d2) d2
      in snd (setTimeout (CB_emit_state_change lastState (DoorState d3)) 0 d3))"

text \<open>
  \<open>_doActivateDoor(overrideLock)\<close>. The relay write is started first, but its \<open>then\<close>
  runs only after the method has returned: the model arms the watchdog, then lets the
  write complete (\<open>ok\<close>) and arm the timer that releases the relay, or fail and only log.
\<close>

definition relay_request :: "bool \<Rightarrow> DoorController \<Rightarrow> DoorController" where
  "relay_request ok d =
     (if ok then
        snd (setTimeout (CB_gpio_write (gpioChanCtrlRequest d) True) DOOR_CTRL_REQ_TIME
               (gpio_write True (gpioChanCtrlRequest d) False d))
      else d)"

definition doActivateDoor :: "bool \<Rightarrow> bool \<Rightarrow> DoorController \<Rightarrow> DoorController" where
  "doActivateDoor ok overrideLock d =
     (if initialized d \<and> (\<not> truthy (DoorLocked d) \<or> overrideLock) then
        (let d1 = clear_if_defined (doorActivationWatchdogId d) d;
             (w, d2) = setTimeout (CB_watchdog (DoorState d1)) DOOR_ACTIVATION_TIMEOUT d1
         in relay_request ok (d2\<lparr>doorActivationWatchdogId := Some w\<rparr>))
      else d)"

definition ActivateDoor :: "bool \<Rightarrow> DoorController \<Rightarrow> DoorController" where
  "ActivateDoor ok d = doActivateDoor ok False d"

text \<open>\<open>_stateChange(channel, value)\<close>: the handler of GPIO change events.\<close>

definition stateChange :: "real \<Rightarrow> bool \<Rightarrow> DoorController \<Rightarrow> DoorController" where
  "stateChange channel level d =
     (if JNumber channel = gpioManualCtrlRequest d then
        (let d1 = clear_if_defined (debounceTimerIdDoorCntrl d) d;
             (i, d2) = setTimeout CB_doActivateDoor DOOR_CNTRL_SWITCH_DEBOUNCE d1
         in d2\<lparr>debounceTimerIdDoorCntrl := Some i\<rparr>)
      else d)"

text \<open>\<open>_sensorResultChanged(oldResult, newResult, context)\<close>: the sensor-driven update.\<close>

definition sensorResultChanged :: "bool \<Rightarrow> DoorController \<Rightarrow> DoorController" where
  "sensorResultChanged ok d =
     updateDoorState ok
       (determineDoorState (openSensor_Result d) (closedSensor_Result d) (DoorState d)) d"

text \<open>
  \<open>IdentifyDoor()\<close>: \<open>DOOR_TOTAL_IDENTIFICATION_TIMEOUT / DOOR_IDENTIFICATION_TOGGLE_TIMEOUT\<close>
  times it reads the indicator, writes the opposite level and waits; then it calls
  \<open>_updateDoorState(this.DoorState)\<close>. \<open>identify_step ok count\<close> is the body from the test
  \<open>count < IDENTIFICATION_TOGGLE_CYCLES\<close> on; a read or write that fails (\<open>ok\<close> false)
  rejects the \<open>await\<close> and ends the identification there.
\<close>

definition identify_step :: "bool \<Rightarrow> nat \<Rightarrow> DoorController \<Rightarrow> DoorController" where
  "identify_step ok count d =
     (if count < DOOR_TOTAL_IDENTIFICATION_TIMEOUT div DOOR_IDENTIFICATION_TOGGLE_TIMEOUT then
        (if ok then
           snd (setTimeout (CB_identify (Suc count)) DOOR_IDENTIFICATION_TOGGLE_TIMEOUT
                  (gpio_write True (gpioChanStateIndicator d)
                     (\<not> gpio_read (gpioChanStateIndicator d) d) d))
         else d)
      else updateDoorState ok (DoorState d) d)"

definition IdentifyDoor :: "bool \<Rightarrow> DoorController \<Rightarrow> DoorController" where
  "IdentifyDoor ok d = (if initialized d then identify_step ok 0 d else d)"

text \<open>
  \<open>Terminate()\<close>. The two sensors are told to terminate, which changes nothing the door
  holds. Then the debounce timer is cleared, the two lines are written (\<open>ok1\<close>, \<open>ok2\<close>:
  whether each write succeeds; a failure is caught), and the door is no longer
  initialised. The method touches no other timer.
\<close>

definition Terminate :: "bool \<Rightarrow> bool \<Rightarrow> DoorController \<Rightarrow> DoorController" where
  "Terminate ok1 ok2 d =
     (let d1 = clear_if_defined (debounceTimerIdDoorCntrl d) d;
          d2 = gpio_write ok1 (gpioChanStateIndicator d1) False d1;
          d3 = gpio_write ok2 (gpioChanCtrlRequest d2) True d2
      in d3\<lparr>initialized := False\<rparr>)"

text \<open>What the loop does when a timer of the door fires; \<open>ok\<close> is for the I/O it starts.\<close>

fun door_fire :: "(nat \<Rightarrow> bool) \<Rightarrow> nat \<Rightarrow> door_callback \<Rightarrow> DoorController \<Rightarrow> DoorController" where
  "door_fire io i CB_doActivateDoor d = doActivateDoor (io i) True d"
| "door_fire io i (CB_watchdog oldDoorState) d = updateDoorState (io i) oldDoorState d"
| "door_fire io i (CB_gpio_write channel level) d = gpio_write (io i) channel level d"
| "door_fire io i (CB_emit_state_change previousState newState) d =
     d\<lparr>state_change_emitted := state_change_emitted d @ [(previousState, newState)]\<rparr>"
| "door_fire io i (CB_identify count) d = identify_step (io i) count d"

section \<open>sensorBase.js\<close>

text \<open>
  The callbacks a sensor hands to \<open>setTimeout\<close>: the emission of \<open>result_changed\<close> with
  the old and the new result, the debounced reading of the proximity switch
  (\<open>(reading) => this._updateSwitchState(reading)\<close> with the level it was given), and the
  emission of \<open>distance_changed\<close> with the old and the new distance.
\<close>

datatype sensor_callback =
    CB_emit_result_changed SENSOR_RESULT SENSOR_RESULT
  | CB_updateSwitchState bool
  | CB_emit_distance_changed real real

record SensorBase = "sensor_callback event_loop" +
  sensor_identifier :: jsval
  sensor_initialized :: bool
  result :: SENSOR_RESULT
  result_changed_emitted :: "(SENSOR_RESULT \<times> SENSOR_RESULT) list"

text \<open>\<open>_setResult(newResult)\<close>.\<close>

definition setResult :: "SENSOR_RESULT \<Rightarrow> 'z SensorBase_scheme \<Rightarrow> 'z SensorBase_scheme" where
  "setResult newResult s =
     (let oldResult = result s in
      if oldResult \<noteq> newResult then
        snd (setTimeout (CB_emit_result_changed oldResult newResult) 0 (s\<lparr>result := newResult\<rparr>))
      else s)"

text \<open>
  An error a constructor throws. A constructor is a function into \<open>error + object\<close>,
  and \<open>Inl\<close> is the throw.
\<close>

datatype error = Error string | TypeError

text \<open>
  A comparison of two values that both passed the test \<open>typeof(v) === 'number'\<close>:
  the validators compare only behind that test.
\<close>

definition number_ge :: "jsval \<Rightarrow> jsval \<Rightarrow> bool" where
  "number_ge a b = (case (a, b) of (JNumber x, JNumber y) \<Rightarrow> x \<ge> y | _ \<Rightarrow> False)"

definition number_gt :: "jsval \<Rightarrow> jsval \<Rightarrow> bool" where
  "number_gt a b = (case (a, b) of (JNumber x, JNumber y) \<Rightarrow> x > y | _ \<Rightarrow> False)"

text \<open>
  The delay \<open>setTimeout\<close> makes of a value that is not a literal: its number, rounded up
  to whole milliseconds, and 1 ms when it is no number from 1 to \<open>2^31 - 1\<close>.
\<close>

definition js_delay :: "(jsval \<Rightarrow> jsval) \<Rightarrow> jsval \<Rightarrow> nat" where
  "js_delay coerce v =
     (case ToNumber coerce v of
        JNumber x \<Rightarrow> if 1 \<le> x \<and> x \<le> 2147483647 then nat \<lceil>x\<rceil> else 1
      | _ \<Rightarrow> 1)"

section \<open>proxSensor.js\<close>

definition NORMALLY_OPEN :: bool where
  "NORMALLY_OPEN = False"

definition NORMALLY_CLOSED :: bool where
  "NORMALLY_CLOSED = True"

definition DEFAULT_PROX_SWITCH_DEBOUNCE :: real where
  "DEFAULT_PROX_SWITCH_DEBOUNCE = 1.0"

definition DEFAULT_PROX_SWITCH_MODE :: bool where
  "DEFAULT_PROX_SWITCH_MODE = NORMALLY_CLOSED"

text \<open>
  The sensor has two properties for the handle of its debounce timer:
  \<open>_debounceTimerIdSwitchState\<close>, which the constructor sets to \<open>undefined\<close> and which
  \<open>_stateChange\<close> and \<open>Terminate\<close> test and clear, and \<open>_debounceTimerIdDoorState\<close>, which
  \<open>_stateChange\<close> assigns.
\<close>

record ProximitySwitchSensor = SensorBase +
  switchDebounce :: jsval
  switchMode :: bool
  gpioDetectIn :: jsval
  debounceTimerIdSwitchState :: "nat option"
  debounceTimerIdDoorState :: "nat option"

text \<open>\<open>ProximitySwitchSensor.ValidateConfiguration(configuration)\<close>.\<close>

definition ProximitySwitchSensor_ValidateConfiguration :: "config \<Rightarrow> error + bool" where
  "ProximitySwitchSensor_ValidateConfiguration configuration =
     (if hasOwnProperty_shadowed configuration then Inl TypeError
      else Inr
        ((\<not> hasOwnProperty configuration ''debounce_time''
            \<or> (typeof (js_get configuration ''debounce_time'') = ''number''
                 \<and> number_ge (js_get configuration ''debounce_time'') (JNumber 1.0)))
         \<and> (\<not> hasOwnProperty configuration ''mode''
            \<or> typeof (js_get configuration ''mode'') = ''boolean'')
         \<and> (hasOwnProperty configuration ''detect_in''
            \<and> typeof (js_get configuration ''detect_in'') = ''number'')))"

text \<open>
  The constructor, at the time \<open>t\<close> of the clock. It calls the validator and does nothing
  with what the validator returns; what the validator throws, the constructor throws.
\<close>

definition ProximitySwitchSensor_constructor ::
  "arithmetic \<Rightarrow> (jsval \<Rightarrow> jsval) \<Rightarrow> nat \<Rightarrow> jsval \<Rightarrow> config \<Rightarrow>
   error + ProximitySwitchSensor" where
  "ProximitySwitchSensor_constructor ar coerce t ident configuration =
     (case ProximitySwitchSensor_ValidateConfiguration configuration of
        Inl e \<Rightarrow> Inl e
      | Inr configValid \<Rightarrow>
      Inr \<lparr>now = t, nextTimerId = 0, timers = [],
           sensor_identifier = ident, sensor_initialized = False, result = SR_UNKNOWN,
           result_changed_emitted = [],
           switchDebounce =
             js_times ar coerce
               (if hasOwnProperty configuration ''debounce_time''
                then js_get configuration ''debounce_time''
                else JNumber DEFAULT_PROX_SWITCH_DEBOUNCE)
               (JNumber 1000.0),
           switchMode =
             (if hasOwnProperty configuration ''mode''
              then (if truthy (js_get configuration ''mode'') then NORMALLY_CLOSED
                    else NORMALLY_OPEN)
              else DEFAULT_PROX_SWITCH_MODE),
           gpioDetectIn = js_get configuration ''detect_in'',
           debounceTimerIdSwitchState = None,
           debounceTimerIdDoorState = None\<rparr>)"

text \<open>\<open>_convertSwitchReadToDetected(rawReadValue)\<close> and \<open>_updateSwitchState(rawSwitchReading)\<close>.\<close>

definition convertSwitchReadToDetected :: "bool \<Rightarrow> ProximitySwitchSensor \<Rightarrow> SENSOR_RESULT" where
  "convertSwitchReadToDetected rawReadValue s =
     (let correctedRawRead =
            (if switchMode s = NORMALLY_CLOSED then rawReadValue else \<not> rawReadValue)
      in if correctedRawRead then SR_DETECTED else SR_UNDETECTED)"

definition updateSwitchState :: "bool \<Rightarrow> ProximitySwitchSensor \<Rightarrow> ProximitySwitchSensor" where
  "updateSwitchState rawSwitchReading s =
     setResult (convertSwitchReadToDetected rawSwitchReading s) s"

text \<open>
  \<open>_stateChange(channel, value)\<close> of the sensor: the handler of GPIO change events, which
  come with the number of the channel and the level read.
\<close>

definition prox_stateChange ::
  "(jsval \<Rightarrow> jsval) \<Rightarrow> real \<Rightarrow> bool \<Rightarrow> ProximitySwitchSensor \<Rightarrow> ProximitySwitchSensor" where
  "prox_stateChange coerce channel level s =
     (if JNumber channel = gpioDetectIn s then
        (let s1 = clear_if_defined (debounceTimerIdSwitchState s) s;
             (i, s2) = setTimeout (CB_updateSwitchState level)
                         (js_delay coerce (switchDebounce s1)) s1
         in s2\<lparr>debounceTimerIdDoorState := Some i\<rparr>)
      else s)"

text \<open>
  \<open>Start()\<close> with the level its first read gives (\<open>ok\<close>: the set-up and the read
  succeed), and \<open>Terminate()\<close>.
\<close>

definition prox_Start :: "bool \<Rightarrow> bool \<Rightarrow> ProximitySwitchSensor \<Rightarrow> ProximitySwitchSensor" where
  "prox_Start ok switchReadResult s =
     (let s1 = s\<lparr>sensor_initialized := False\<rparr> in
      if ok then (updateSwitchState switchReadResult s1)\<lparr>sensor_initialized := True\<rparr>
      else s1)"

definition prox_Terminate :: "ProximitySwitchSensor \<Rightarrow> ProximitySwitchSensor" where
  "prox_Terminate s =
     (clear_if_defined (debounceTimerIdSwitchState s) s)\<lparr>sensor_initialized := False\<rparr>"

text \<open>What the loop does when a timer of the sensor fires.\<close>

fun prox_fire :: "nat \<Rightarrow> sensor_callback \<Rightarrow> ProximitySwitchSensor \<Rightarrow> ProximitySwitchSensor" where
  "prox_fire i (CB_updateSwitchState reading) s = updateSwitchState reading s"
| "prox_fire i (CB_emit_result_changed resultOld resultNew) s =
     s\<lparr>result_changed_emitted := result_changed_emitted s @ [(resultOld, resultNew)]\<rparr>"
| "prox_fire i (CB_emit_distance_changed resultOld resultNew) s = s"

text \<open>
  Edge events on the sensor's input line, each with the time it arrives and the level
  read: the loop runs up to that time, then the handler is called.
\<close>

fun prox_edges ::
  "(jsval \<Rightarrow> jsval) \<Rightarrow> nat \<Rightarrow> real \<Rightarrow> (nat \<times> bool) list \<Rightarrow> ProximitySwitchSensor \<Rightarrow>
   ProximitySwitchSensor option" where
  "prox_edges coerce fuel channel [] s = Some s"
| "prox_edges coerce fuel channel ((t, level) # es) s =
     (case run_timers prox_fire fuel t s of
        None \<Rightarrow> None
      | Some s' \<Rightarrow> prox_edges coerce fuel channel es (prox_stateChange coerce channel level s'))"

section \<open>sonarSensor.js\<close>

datatype SONAR_STATE = INACTIVE | ARMED | PENDING

definition NOMINAL_SPEED_OF_SOUND :: real where
  "NOMINAL_SPEED_OF_SOUND = 343.0"

definition MINIMUM_SONAR_POLLING_INTERVAL :: real where
  "MINIMUM_SONAR_POLLING_INTERVAL = 0.25"

definition DEFAULT_SONAR_POLLING_INTERVAL :: real where
  "DEFAULT_SONAR_POLLING_INTERVAL = 5.0"

definition DISTANCE_THRESHOLD_FOR_CHANGE_NOTIFICATION :: real where
  "DISTANCE_THRESHOLD_FOR_CHANGE_NOTIFICATION = 0.08"

definition INVALID_DISTANCE :: real where
  "INVALID_DISTANCE = - 1000.0"

record SonarSensor = SensorBase +
  sonarPingInterval :: jsval
  distanceThreshold :: jsval
  gpioTriggerOut :: jsval
  gpioEchoIn :: jsval
  detectMin :: jsval
  detectMax :: jsval
  sonarPingTriggerId :: "nat option"
  lastDistanceReading :: real
  referenceDistanceReading :: real
  referenceTime :: real
  distanceAge :: real
  sonarState :: SONAR_STATE

text \<open>\<open>SonarSensor.ValidateConfiguration(configuration)\<close> of \<open>sonarSensor.js\<close>.\<close>

definition SonarSensor_ValidateConfiguration :: "config \<Rightarrow> error + bool" where
  "SonarSensor_ValidateConfiguration configuration =
     (if hasOwnProperty_shadowed configuration then Inl TypeError
      else Inr
     ((\<not> hasOwnProperty configuration ''polling_interval''
         \<or> (typeof (js_get configuration ''polling_interval'') = ''number''
              \<and> number_ge (js_get configuration ''polling_interval'')
                   (JNumber MINIMUM_SONAR_POLLING_INTERVAL)))
      \<and> (\<not> hasOwnProperty configuration ''distance_threshold_change_notification''
         \<or> typeof (js_get configuration ''distance_threshold_change_notification'') = ''number'')
      \<and> (hasOwnProperty configuration ''trigger_out''
         \<and> typeof (js_get configuration ''trigger_out'') = ''number'')
      \<and> (hasOwnProperty configuration ''echo_in''
         \<and> typeof (js_get configuration ''echo_in'') = ''number'')
      \<and> (hasOwnProperty configuration ''detect_threshold_min''
         \<and> typeof (js_get configuration ''detect_threshold_min'') = ''number'')
      \<and> (hasOwnProperty configuration ''detect_threshold_max''
         \<and> typeof (js_get configuration ''detect_threshold_max'') = ''number'')
      \<and> number_gt (js_get configuration ''detect_threshold_max'')
           (js_get configuration ''detect_threshold_min'')))"

text \<open>
  The same method as the bundled build of the package has it (the file that the
  package's \<open>main\<close> names): it also bounds the change threshold and the two detect
  thresholds.
\<close>

definition SonarSensor_ValidateConfiguration_bundled :: "config \<Rightarrow> error + bool" where
  "SonarSensor_ValidateConfiguration_bundled configuration =
     (if hasOwnProperty_shadowed configuration then Inl TypeError
      else Inr
     ((\<not> hasOwnProperty configuration ''polling_interval''
         \<or> (typeof (js_get configuration ''polling_interval'') = ''number''
              \<and> number_ge (js_get configuration ''polling_interval'')
                   (JNumber MINIMUM_SONAR_POLLING_INTERVAL)))
      \<and> (\<not> hasOwnProperty configuration ''distance_threshold_change_notification''
         \<or> (typeof (js_get configuration ''distance_threshold_change_notification'') = ''number''
              \<and> number_gt (js_get configuration ''distance_threshold_change_notification'')
                   (JNumber 0.0)))
      \<and> (hasOwnProperty configuration ''trigger_out''
         \<and> typeof (js_get configuration ''trigger_out'') = ''number'')
      \<and> (hasOwnProperty configuration ''echo_in''
         \<and> typeof (js_get configuration ''echo_in'') = ''number'')
      \<and> (hasOwnProperty configuration ''detect_threshold_min''
         \<and> typeof (js_get configuration ''detect_threshold_min'') = ''number''
         \<and> number_ge (js_get configuration ''detect_threshold_min'') (JNumber 0.0))
      \<and> (hasOwnProperty configuration ''detect_threshold_max''
         \<and> typeof (js_get configuration ''detect_threshold_max'') = ''number''
         \<and> number_gt (js_get configuration ''detect_threshold_max'') (JNumber 0.0))
      \<and> number_gt (js_get configuration ''detect_threshold_max'')
           (js_get configuration ''detect_threshold_min'')))"

text \<open>
  The acceptance condition in the words of the specification (section 4.1): a polling
  interval, when present, is a number of at least 0.25; a change threshold, when
  present, is a number above 0; the trigger and echo lines are present numbers; the
  detect range is two present numbers with \<open>max > min \<ge> 0\<close>.
\<close>

definition spec_sonar_configuration_accepted :: "config \<Rightarrow> bool" where
  "spec_sonar_configuration_accepted c =
     ((if hasOwnProperty c ''polling_interval''
       then typeof (js_get c ''polling_interval'') = ''number''
            \<and> number_ge (js_get c ''polling_interval'') (JNumber 0.25)
       else True)
      \<and> (if hasOwnProperty c ''distance_threshold_change_notification''
         then typeof (js_get c ''distance_threshold_change_notification'') = ''number''
              \<and> number_gt (js_get c ''distance_threshold_change_notification'') (JNumber 0)
         else True)
      \<and> hasOwnProperty c ''trigger_out'' \<and> typeof (js_get c ''trigger_out'') = ''number''
      \<and> hasOwnProperty c ''echo_in'' \<and> typeof (js_get c ''echo_in'') = ''number''
      \<and> hasOwnProperty c ''detect_threshold_min''
      \<and> typeof (js_get c ''detect_threshold_min'') = ''number''
      \<and> hasOwnProperty c ''detect_threshold_max''
      \<and> typeof (js_get c ''detect_threshold_max'') = ''number''
      \<and> number_gt (js_get c ''detect_threshold_max'') (js_get c ''detect_threshold_min'')
      \<and> number_ge (js_get c ''detect_threshold_min'') (JNumber 0))"

text \<open>
  The constructor of \<open>sonarSensor.js\<close>, at the time \<open>t\<close> of the clock. It calls the
  validator and does nothing with what the validator returns; what the validator
  throws, the constructor throws. The change threshold is
  read when the configuration has the property \<open>polling_interval\<close>. \<open>_initialize()\<close> finds
  the sonar inactive and resets the readings.
\<close>

definition SonarSensor_constructor ::
  "arithmetic \<Rightarrow> (jsval \<Rightarrow> jsval) \<Rightarrow> nat \<Rightarrow> jsval \<Rightarrow> config \<Rightarrow> error + SonarSensor" where
  "SonarSensor_constructor ar coerce t ident configuration =
     (case SonarSensor_ValidateConfiguration configuration of
        Inl e \<Rightarrow> Inl e
      | Inr configValid \<Rightarrow>
      Inr \<lparr>now = t, nextTimerId = 0, timers = [],
           sensor_identifier = ident, sensor_initialized = False, result = SR_UNKNOWN,
           result_changed_emitted = [],
           sonarPingInterval =
             js_times ar coerce
               (if hasOwnProperty configuration ''polling_interval''
                then js_get configuration ''polling_interval''
                else JNumber DEFAULT_SONAR_POLLING_INTERVAL)
               (JNumber 1000.0),
           distanceThreshold =
             (if hasOwnProperty configuration ''polling_interval''
              then js_get configuration ''distance_threshold_change_notification''
              else JNumber DISTANCE_THRESHOLD_FOR_CHANGE_NOTIFICATION),
           gpioTriggerOut = js_get configuration ''trigger_out'',
           gpioEchoIn = js_get configuration ''echo_in'',
           detectMin = js_get configuration ''detect_threshold_min'',
           detectMax = js_get configuration ''detect_threshold_max'',
           sonarPingTriggerId = None,
           lastDistanceReading = INVALID_DISTANCE,
           referenceDistanceReading = INVALID_DISTANCE,
           referenceTime = 0,
           distanceAge = 0,
           sonarState = INACTIVE\<rparr>)"

text \<open>
  \<open>_performDistanceMeasurement(elapsedTime, measurementCompleteTime)\<close>. The product, the
  two quotients and the difference are operations on doubles; \<open>Math.abs\<close> is exact.
\<close>

definition performDistanceMeasurement ::
  "arithmetic \<Rightarrow> (jsval \<Rightarrow> jsval) \<Rightarrow> real \<Rightarrow> real \<Rightarrow> SonarSensor \<Rightarrow> SonarSensor" where
  "performDistanceMeasurement ar coerce elapsedTime measurementCompleteTime s =
     (let DISTANCE_FACTOR = 2.0;
          s1 = s\<lparr>lastDistanceReading :=
                    fl_divide ar
                      (fl_times ar NOMINAL_SPEED_OF_SOUND (fl_divide ar elapsedTime 1000.0))
                      DISTANCE_FACTOR,
                 distanceAge := measurementCompleteTime\<rparr>;
          s2 = (if js_ge coerce
                     (JNumber
                        \<bar>fl_minus ar (lastDistanceReading s1) (referenceDistanceReading s1)\<bar>)
                     (distanceThreshold s1)
                then (snd (setTimeout
                             (CB_emit_distance_changed (referenceDistanceReading s1)
                                (lastDistanceReading s1)) 0 s1))
                       \<lparr>referenceDistanceReading := lastDistanceReading s1\<rparr>
                else s1);
          newResult =
            (if js_ge coerce (JNumber (lastDistanceReading s2)) (detectMin s2)
                \<and> js_le coerce (JNumber (lastDistanceReading s2)) (detectMax s2)
             then SR_DETECTED else SR_UNDETECTED)
      in setResult newResult s2)"

section \<open>doorCntrl.js: the constructor\<close>

text \<open>
  The own properties a value shows to \<open>hasOwnProperty\<close> and to a property read. On
  \<open>null\<close> and \<open>undefined\<close> both throw a \<open>TypeError\<close>; a value that is no plain object has
  none of the properties the code asks for.
\<close>

fun own_properties :: "jsval \<Rightarrow> error + config" where
  "own_properties (JObject kvs) = Inr kvs"
| "own_properties JNull = Inl TypeError"
| "own_properties JUndefined = Inl TypeError"
| "own_properties v = Inr []"

text \<open>\<open>toUpperCase()\<close>, on the letters a to z.\<close>

definition upper_char :: "char \<Rightarrow> char" where
  "upper_char c =
     (case map_of (zip ''abcdefghijklmnopqrstuvwxyz'' ''ABCDEFGHIJKLMNOPQRSTUVWXYZ'') c of
        None \<Rightarrow> c
      | Some u \<Rightarrow> u)"

definition toUpperCase :: "string \<Rightarrow> string" where
  "toUpperCase s = map upper_char s"

text \<open>
  The callback \<open>_validateDetectionSensorConfig\<close> gives to \<open>every\<close>, for one item of
  \<open>detect_sensors\<close>: whether the item is valid.
\<close>

definition validate_configItem :: "jsval \<Rightarrow> error + bool" where
  "validate_configItem item =
     (case own_properties item of
        Inl e \<Rightarrow> Inl e
      | Inr configItem \<Rightarrow>
          if hasOwnProperty_shadowed configItem then Inl TypeError
          else if (hasOwnProperty configItem ''id''
                   \<and> typeof (js_get configItem ''id'') = ''string'')
             \<and> (hasOwnProperty configItem ''class''
                \<and> typeof (js_get configItem ''class'') = ''string'')
             \<and> (hasOwnProperty configItem ''function''
                \<and> typeof (js_get configItem ''function'') = ''string'')
             \<and> (hasOwnProperty configItem ''config''
                \<and> typeof (js_get configItem ''config'') = ''object'')
          then
            (if js_get configItem ''class'' = JString ''SonarSensor'' then
               (case own_properties (js_get configItem ''config'') of
                  Inl e \<Rightarrow> Inl e
                | Inr c \<Rightarrow> SonarSensor_ValidateConfiguration c)
             else if js_get configItem ''class'' = JString ''ProximitySwitchSensor'' then
               (case own_properties (js_get configItem ''config'') of
                  Inl e \<Rightarrow> Inl e
                | Inr c \<Rightarrow> ProximitySwitchSensor_ValidateConfiguration c)
             else Inr False)
          else Inr False)"

text \<open>The function of an item, in upper case: \<open>configItem.function.toUpperCase()\<close>.\<close>

definition function_of :: "jsval \<Rightarrow> error + string" where
  "function_of item =
     (case own_properties item of
        Inl e \<Rightarrow> Inl e
      | Inr configItem \<Rightarrow>
          (case js_get configItem ''function'' of
             JString f \<Rightarrow> Inr (toUpperCase f)
           | _ \<Rightarrow> Inl TypeError))"

text \<open>
  \<open>every\<close> over the items, with the map \<open>requiredSensorsIdentified\<close> as the pair of its
  entries for \<open>OPEN\<close> and \<open>CLOSE\<close>: it stops at the first item that is not valid.
\<close>

fun every_configItem :: "jsval list \<Rightarrow> bool \<times> bool \<Rightarrow> error + bool \<times> bool \<times> bool" where
  "every_configItem [] required = Inr (True, required)"
| "every_configItem (item # items) required =
     (case validate_configItem item of
        Inl e \<Rightarrow> Inl e
      | Inr configItemValid \<Rightarrow>
          if configItemValid then
            (case function_of item of
               Inl e \<Rightarrow> Inl e
             | Inr f \<Rightarrow>
                 every_configItem items
                   (if f = ''OPEN'' then (True, snd required)
                    else if f = ''CLOSE'' then (fst required, True)
                    else required))
          else Inr (False, required))"

definition validateDetectionSensorConfig :: "jsval list \<Rightarrow> error + bool" where
  "validateDetectionSensorConfig configuration =
     (case every_configItem configuration (False, False) of
        Inl e \<Rightarrow> Inl e
      | Inr (configValid, open_found, close_found) \<Rightarrow>
          Inr ((configValid \<and> open_found) \<and> close_found))"

text \<open>
  \<open>_createDetectionSensor(configuration, sensor_function)\<close>: the sensor of the first
  item with that function, \<open>None\<close> for the \<open>null\<close> an unknown class leaves, and the error
  when no item has the function.
\<close>

datatype detection_sensor = Sonar SonarSensor | Prox ProximitySwitchSensor

fun createDetectionSensor ::
  "arithmetic \<Rightarrow> (jsval \<Rightarrow> jsval) \<Rightarrow> nat \<Rightarrow> jsval list \<Rightarrow> string \<Rightarrow>
   error + detection_sensor option" where
  "createDetectionSensor ar coerce t [] sensor_function =
     Inl (Error ''Unable to create detection sensor.'')"
| "createDetectionSensor ar coerce t (item # items) sensor_function =
     (case function_of item of
        Inl e \<Rightarrow> Inl e
      | Inr f \<Rightarrow>
          if f = toUpperCase sensor_function then
            (case own_properties item of
               Inl e \<Rightarrow> Inl e
             | Inr configItem \<Rightarrow>
                 if js_get configItem ''class'' = JString ''SonarSensor'' then
                   (case own_properties (js_get configItem ''config'') of
                      Inl e \<Rightarrow> Inl e
                    | Inr c \<Rightarrow>
                        map_sum (\<lambda>e. e) (\<lambda>s. Some (Sonar s))
                          (SonarSensor_constructor ar coerce t (js_get configItem ''id'') c))
                 else if js_get configItem ''class'' = JString ''ProximitySwitchSensor'' then
                   (case own_properties (js_get configItem ''config'') of
                      Inl e \<Rightarrow> Inl e
                    | Inr c \<Rightarrow>
                        map_sum (\<lambda>e. e) (\<lambda>s. Some (Prox s))
                          (ProximitySwitchSensor_constructor ar coerce t
                             (js_get configItem ''id'') c))
                 else Inr None)
          else createDetectionSensor ar coerce t items sensor_function)"

text \<open>
  The part of the constructor's test that reads plain properties, up to the type of
  \<open>detect_sensors\<close>.
\<close>

definition door_properties_valid :: "config \<Rightarrow> bool" where
  "door_properties_valid configuration =
     ((hasOwnProperty configuration ''name''
         \<and> typeof (js_get configuration ''name'') = ''string'')
      \<and> (hasOwnProperty configuration ''state_indicator''
         \<and> typeof (js_get configuration ''state_indicator'') = ''number'')
      \<and> (hasOwnProperty configuration ''control_request''
         \<and> typeof (js_get configuration ''control_request'') = ''number'')
      \<and> (hasOwnProperty configuration ''manual_control_reqest''
         \<and> typeof (js_get configuration ''manual_control_reqest'') = ''number'')
      \<and> ((hasOwnProperty configuration ''soft_locked''
            \<and> typeof (js_get configuration ''soft_locked'') = ''boolean'')
           \<or> \<not> hasOwnProperty configuration ''soft_locked'')
      \<and> (hasOwnProperty configuration ''detect_sensors''
         \<and> typeof (js_get configuration ''detect_sensors'') = ''object''))"

text \<open>
  The rest of the test, \<open>detect_sensors.length >= 2\<close> and the validation of the items.
  Of \<open>null\<close> the length cannot be read; an object that is no array has no \<open>every\<close>.
\<close>

definition door_sensors_valid :: "(jsval \<Rightarrow> jsval) \<Rightarrow> jsval \<Rightarrow> error + bool" where
  "door_sensors_valid coerce detect_sensors =
     (case detect_sensors of
        JArray items \<Rightarrow>
          if length items \<ge> 2 then validateDetectionSensorConfig items else Inr False
      | JObject kvs \<Rightarrow>
          if js_ge coerce (js_get kvs ''length'') (JNumber 2) then Inl TypeError else Inr False
      | JNull \<Rightarrow> Inl TypeError
      | _ \<Rightarrow> Inr False)"

text \<open>
  The constructor, at the time \<open>t\<close> of the clock: the door and its two sensors, or the
  error thrown.
\<close>

definition DoorController_constructor ::
  "arithmetic \<Rightarrow> (jsval \<Rightarrow> jsval) \<Rightarrow> nat \<Rightarrow> config \<Rightarrow>
   error + DoorController \<times> detection_sensor option \<times> detection_sensor option" where
  "DoorController_constructor ar coerce t configuration =
     (if hasOwnProperty_shadowed configuration then Inl TypeError
      else if \<not> door_properties_valid configuration
      then Inl (Error ''DoorController invalid configuration'')
      else
        (case door_sensors_valid coerce (js_get configuration ''detect_sensors'') of
           Inl e \<Rightarrow> Inl e
         | Inr configValid \<Rightarrow>
             if \<not> configValid then Inl (Error ''DoorController invalid configuration'')
             else
               (case js_get configuration ''detect_sensors'' of
                  JArray items \<Rightarrow>
                    (case createDetectionSensor ar coerce t items ''OPEN'' of
                       Inl e \<Rightarrow> Inl e
                     | Inr openSensor \<Rightarrow>
                         (case createDetectionSensor ar coerce t items ''CLOSE'' of
                            Inl e \<Rightarrow> Inl e
                          | Inr closedSensor \<Rightarrow>
                              Inr (\<lparr>now = t, nextTimerId = 0, timers = [],
                                    name = js_get configuration ''name'',
                                    gpioChanStateIndicator = js_get configuration ''state_indicator'',
                                    gpioChanCtrlRequest = js_get configuration ''control_request'',
                                    gpioManualCtrlRequest =
                                      js_get configuration ''manual_control_reqest'',
                                    openSensor_Result = SR_UNKNOWN,
                                    closedSensor_Result = SR_UNKNOWN,
                                    currentDoorState = DOOR_UNKNOWN,
                                    targetDoorState = DOOR_UNKNOWN,
                                    doorLocked =
                                      (if hasOwnProperty configuration ''soft_locked''
                                       then js_get configuration ''soft_locked''
                                       else JBoolean True),
                                    debounceTimerIdDoorCntrl = None,
                                    doorActivationWatchdogId = None,
                                    initialized = False,
                                    gpio_written = [],
                                    state_change_emitted = []\<rparr>,
                                   openSensor, closedSensor)))
                | _ \<Rightarrow> Inl TypeError)))"




section \<open>Predicates on armed timers\<close>

fun is_watchdog :: "door_callback \<Rightarrow> bool" where
  "is_watchdog (CB_watchdog s) = True"
| "is_watchdog c = False"

text \<open>
  Every armed watchdog is the one whose handle the door holds in
  \<open>_doorActivationWatchdogId\<close>.
\<close>

definition watchdog_tracked :: "DoorController \<Rightarrow> bool" where
  "watchdog_tracked d =
     list_all
       (\<lambda>t. if is_watchdog (callback t) then doorActivationWatchdogId d = Some (timer_id t)
            else True)
       (timers d)"

fun is_line_write :: "door_callback \<Rightarrow> bool" where
  "is_line_write (CB_gpio_write channel level) = True"
| "is_line_write c = False"

text \<open>
  Nothing is pending on the door that would update its state: every armed timer is a
  write to a line or the timer whose handle the door holds in
  \<open>_doorActivationWatchdogId\<close>. So no manual request is being debounced, no
  identification is under way and no notification is on its way.
\<close>

definition no_update_pending :: "DoorController \<Rightarrow> bool" where
  "no_update_pending d =
     list_all
       (\<lambda>t. is_line_write (callback t) \<or> doorActivationWatchdogId d = Some (timer_id t))
       (timers d)"

text \<open>
  The handles of the armed timers differ from one another and are below the next
  handle, as \<open>setTimeout\<close> gives each timer a handle of its own.
\<close>

definition handles_fresh :: "('cb, 'z) event_loop_scheme \<Rightarrow> bool" where
  "handles_fresh e =
     (distinct (map timer_id (timers e))
      \<and> list_all (\<lambda>t. timer_id t < nextTimerId e) (timers e))"

text \<open>
  Two stages of a door after an activation. In the first the watchdog with the handle
  \<open>w\<close>, due at \<open>dw\<close> and holding the state \<open>s\<close>, is armed, the door is in the state \<open>s\<close>
  and has emitted the events \<open>E\<close>, and everything else that is armed is a line write. In
  the second a notification of the event \<open>ev\<close>, due at \<open>dk\<close>, is either armed, with the
  events \<open>E\<close> emitted, or has fired, with the events \<open>E @ [ev]\<close> emitted; everything
  else that is armed is a line write.
\<close>

definition watchdog_stage ::
  "nat \<Rightarrow> nat \<Rightarrow> DOOR_STATE \<Rightarrow> (DOOR_STATE \<times> DOOR_STATE) list \<Rightarrow> DoorController \<Rightarrow> bool" where
  "watchdog_stage w dw s E e =
     (handles_fresh e
      \<and> doorActivationWatchdogId e = Some w \<and> currentDoorState e = s
      \<and> state_change_emitted e = E \<and> now e \<le> dw
      \<and> \<lparr>timer_id = w, due = dw, callback = CB_watchdog s\<rparr> \<in> set (timers e)
      \<and> list_all
            (\<lambda>t. t = \<lparr>timer_id = w, due = dw, callback = CB_watchdog s\<rparr>
                 \<or> is_line_write (callback t))
            (timers e))"

definition notification_stage ::
  "nat \<Rightarrow> DOOR_STATE \<times> DOOR_STATE \<Rightarrow> (DOOR_STATE \<times> DOOR_STATE) list \<Rightarrow> DoorController \<Rightarrow>
   bool" where
  "notification_stage dk ev E e =
     (distinct (map timer_id (timers e))
      \<and> ((state_change_emitted e = E
            \<and> (\<exists>k. \<lparr>timer_id = k, due = dk,
                     callback = CB_emit_state_change (fst ev) (snd ev)\<rparr> \<in> set (timers e)
                   \<and> list_all
                         (\<lambda>t. t = \<lparr>timer_id = k, due = dk,
                                      callback = CB_emit_state_change (fst ev) (snd ev)\<rparr>
                              \<or> is_line_write (callback t))
                         (timers e)))
           \<or> (state_change_emitted e = E @ [ev]
               \<and> list_all (\<lambda>t. is_line_write (callback t)) (timers e))))"

text \<open>The timers that are due by the time \<open>T\<close>, counted.\<close>

definition due_by :: "nat \<Rightarrow> ('cb, 'z) event_loop_scheme \<Rightarrow> nat" where
  "due_by T e = length (filter (\<lambda>t. due t \<le> T) (timers e))"

fun is_result_changed :: "sensor_callback \<Rightarrow> bool" where
  "is_result_changed (CB_emit_result_changed resultOld resultNew) = True"
| "is_result_changed c = False"

text \<open>The emissions of \<open>result_changed\<close> that are scheduled, in order.\<close>

definition result_changed_pending :: "'z SensorBase_scheme \<Rightarrow> sensor_callback list" where
  "result_changed_pending s = filter is_result_changed (map callback (timers s))"


section \<open>Examples\<close>

text \<open>
  A door that has started, unlocked and open; the same door locked; a proximity switch
  that has started on an open circuit; a sonar with the detect range of the
  specification's scenario.
\<close>

definition example_door :: DoorController where
  "example_door =
     \<lparr>now = 0, nextTimerId = 0, timers = [], name = JString ''door'',
      gpioChanStateIndicator = JNumber 1, gpioChanCtrlRequest = JNumber 2,
      gpioManualCtrlRequest = JNumber 3, openSensor_Result = SR_DETECTED,
      closedSensor_Result = SR_UNDETECTED, currentDoorState = DOOR_OPEN,
      targetDoorState = DOOR_UNKNOWN, doorLocked = JBoolean False,
      debounceTimerIdDoorCntrl = None, doorActivationWatchdogId = None,
      initialized = True, gpio_written = [(JNumber 1, True)], state_change_emitted = []\<rparr>"

definition example_locked_door :: DoorController where
  "example_locked_door = example_door\<lparr>doorLocked := JBoolean True\<rparr>"

text \<open>
  The same door 40 ms after an earlier activation: the timer that releases the relay
  is still armed.
\<close>

definition example_busy_door :: DoorController where
  "example_busy_door =
     example_door
       \<lparr>now := 40, nextTimerId := 5,
        timers := [\<lparr>timer_id = 4, due = 100, callback = CB_gpio_write (JNumber 2) True\<rparr>]\<rparr>"

text \<open>Every read and write of a line succeeds.\<close>

definition all_io_succeeds :: "nat \<Rightarrow> bool" where
  "all_io_succeeds i = True"

text \<open>
  The door of the example is activated at 0 ms and again at 10 s, with no event from a
  sensor; the loop then runs up to the time \<open>T\<close>.
\<close>

definition activated_twice :: "nat \<Rightarrow> DoorController option" where
  "activated_twice T =
     (case run_timers (door_fire all_io_succeeds) 1 10000 (ActivateDoor True example_door) of
        None \<Rightarrow> None
      | Some d1 \<Rightarrow> run_timers (door_fire all_io_succeeds) 4 T (ActivateDoor True d1))"

text \<open>An arithmetic for the examples: the operations of the reals, which round nothing.\<close>

definition exact_arithmetic :: arithmetic where
  "exact_arithmetic = \<lparr>fl_times = (*), fl_divide = (/), fl_minus = (-)\<rparr>"

definition example_prox :: ProximitySwitchSensor where
  "example_prox =
     \<lparr>now = 0, nextTimerId = 0, timers = [],
      sensor_identifier = JString ''closed'', sensor_initialized = True,
      result = SR_UNDETECTED, result_changed_emitted = [],
      switchDebounce = JNumber 1000, switchMode = NORMALLY_CLOSED, gpioDetectIn = JNumber 5,
      debounceTimerIdSwitchState = None, debounceTimerIdDoorState = None\<rparr>"

definition example_sonar_configuration :: config where
  "example_sonar_configuration =
     [(''trigger_out'', JNumber 23), (''echo_in'', JNumber 24),
      (''detect_threshold_min'', JNumber 0.10), (''detect_threshold_max'', JNumber 0.50)]"

definition example_door_configuration :: config where
  "example_door_configuration =
     [(''name'', JString ''Garage''), (''state_indicator'', JNumber 1),
      (''control_request'', JNumber 2), (''manual_control_reqest'', JNumber 3),
      (''detect_sensors'',
         JArray
           [JObject [(''id'', JString ''open''), (''class'', JString ''SonarSensor''),
                     (''function'', JString ''open''),
                     (''config'', JObject example_sonar_configuration)],
            JObject [(''id'', JString ''closed''), (''class'', JString ''ProximitySwitchSensor''),
                     (''function'', JString ''close''),
                     (''config'', JObject [(''detect_in'', JNumber 5)])]])]"

text \<open>
  The configuration of a door whose sonar has the detect thresholds inverted, and the
  one of a door whose proximity switch has no input line.
\<close>

definition example_inverted_sonar_item :: jsval where
  "example_inverted_sonar_item =
     JObject [(''id'', JString ''open''), (''class'', JString ''SonarSensor''),
              (''function'', JString ''open''),
              (''config'',
                 JObject [(''trigger_out'', JNumber 23), (''echo_in'', JNumber 24),
                          (''detect_threshold_min'', JNumber 0.5),
                          (''detect_threshold_max'', JNumber 0.1)])]"

definition example_prox_item :: jsval where
  "example_prox_item =
     JObject [(''id'', JString ''closed''), (''class'', JString ''ProximitySwitchSensor''),
              (''function'', JString ''close''),
              (''config'', JObject [(''detect_in'', JNumber 5)])]"

definition example_inverted_door_configuration :: config where
  "example_inverted_door_configuration =
     [(''name'', JString ''Garage''), (''state_indicator'', JNumber 1),
      (''control_request'', JNumber 2), (''manual_control_reqest'', JNumber 3),
      (''detect_sensors'', JArray [example_inverted_sonar_item, example_prox_item])]"

definition example_sonar :: SonarSensor where
  "example_sonar =
     \<lparr>now = 0, nextTimerId = 0, timers = [],
      sensor_identifier = JString ''open'', sensor_initialized = True,
      result = SR_UNKNOWN, result_changed_emitted = [],
      sonarPingInterval = JNumber 5000, distanceThreshold = JNumber 0.08,
      gpioTriggerOut = JNumber 23, gpioEchoIn = JNumber 24,
      detectMin = JNumber 0.10, detectMax = JNumber 0.50,
      sonarPingTriggerId = None, lastDistanceReading = INVALID_DISTANCE,
      referenceDistanceReading = INVALID_DISTANCE, referenceTime = 0, distanceAge = 0,
      sonarState = INACTIVE\<rparr>"

section \<open>The resolver against its table\<close>

lemma determineDoorState_table_elsewhere:
  assumes "\<not> (openResult = SR_UNDETECTED \<and> closedResult = SR_UNDETECTED
              \<and> (previous = DOOR_OPENING \<or> previous = DOOR_CLOSING))"
  shows "determineDoorState openResult closedResult previous
           = spec_resolver_table openResult closedResult previous"
  using assms
  by (cases openResult; cases closedResult; cases previous)
     (simp_all add: determineDoorState_def determineDoorState_first_chain_def
        determineDoorState_second_chain_def)

text \<open>
  C1. With both sensors undetected and the door last known to be opening (or closing),
  the resolver returns unknown, where the table of section 4.3 keeps the previous state.
  Everywhere else the resolver is the table (\<open>determineDoorState_table_elsewhere\<close>).
\<close>

theorem determineDoorState_moving_door_is_unknown:
  "determineDoorState SR_UNDETECTED SR_UNDETECTED DOOR_OPENING = DOOR_UNKNOWN
   \<and> determineDoorState SR_UNDETECTED SR_UNDETECTED DOOR_CLOSING = DOOR_UNKNOWN
   \<and> spec_resolver_table SR_UNDETECTED SR_UNDETECTED DOOR_OPENING = DOOR_OPENING
   \<and> spec_resolver_table SR_UNDETECTED SR_UNDETECTED DOOR_CLOSING = DOOR_CLOSING"
  by (simp add: determineDoorState_def determineDoorState_first_chain_def
        determineDoorState_second_chain_def)

section \<open>Running the loop\<close>

lemmas door_defs =
  doActivateDoor_def updateDoorState_def relay_request_def gpio_write_def
  clear_if_defined_def setTimeout_def clearTimeout_def DoorState_def DoorLocked_def
  DoorClosed_def timeout_delay_def DOOR_ACTIVATION_TIMEOUT_def DOOR_CTRL_REQ_TIME_def Let_def

lemma run_timers_numeral:
  "run_timers fire (numeral k) t e =
     (case next_due t (timers e) of
        None \<Rightarrow> Some (e\<lparr>now := max (now e) t\<rparr>)
      | Some x \<Rightarrow>
          run_timers fire (pred_numeral k) t
            (fire (timer_id x) (callback x)
               (clearTimeout (timer_id x) (e\<lparr>now := max (now e) (due x)\<rparr>))))"
  by (simp add: numeral_eq_Suc)

section \<open>The lock gate of the activation\<close>

lemma doActivateDoor_gate_closed:
  "\<not> (initialized d \<and> (\<not> truthy (DoorLocked d) \<or> overrideLock)) \<Longrightarrow>
   doActivateDoor ok overrideLock d = d"
  by (auto simp add: doActivateDoor_def)

lemma doActivateDoor_timers:
  "initialized d \<Longrightarrow> \<not> truthy (DoorLocked d) \<or> overrideLock \<Longrightarrow>
   timers (doActivateDoor ok overrideLock d) =
     filter (\<lambda>t. Some (timer_id t) \<noteq> doorActivationWatchdogId d) (timers d)
     @ [\<lparr>timer_id = nextTimerId d, due = now d + 30000,
          callback = CB_watchdog (currentDoorState d)\<rparr>]
     @ (if ok then [\<lparr>timer_id = Suc (nextTimerId d), due = now d + 100,
                      callback = CB_gpio_write (gpioChanCtrlRequest d) True\<rparr>]
        else [])"
  by (cases "doorActivationWatchdogId d") (auto simp add: door_defs)

lemma doActivateDoor_fields:
  "initialized d \<Longrightarrow> \<not> truthy (DoorLocked d) \<or> overrideLock \<Longrightarrow>
   doorActivationWatchdogId (doActivateDoor ok overrideLock d) = Some (nextTimerId d)
   \<and> currentDoorState (doActivateDoor ok overrideLock d) = currentDoorState d
   \<and> gpio_written (doActivateDoor ok overrideLock d)
       = gpio_written d @ (if ok then [(gpioChanCtrlRequest d, False)] else [])"
  by (cases "doorActivationWatchdogId d") (auto simp add: door_defs)

text \<open>
  C3. An activation that does not override the lock, on a door that is locked or not
  initialised, returns the door as it was: no write to the relay line, no timer armed,
  the same door state. So does any activation of a door that is not initialised. An
  activation that overrides the lock, on an initialised door, arms the watchdog for
  30 s with the current door state and writes the relay line low; when that write
  succeeds, the timer that writes the line high again is armed for 100 ms.
\<close>

theorem activation_lock_gate:
  "(\<not> initialized d \<or> truthy (DoorLocked d) \<longrightarrow> doActivateDoor ok False d = d)
   \<and> (\<not> initialized d \<longrightarrow> doActivateDoor ok overrideLock d = d)
   \<and> (initialized d \<longrightarrow>
        doorActivationWatchdogId (doActivateDoor ok True d) = Some (nextTimerId d)
        \<and> \<lparr>timer_id = nextTimerId d, due = now d + DOOR_ACTIVATION_TIMEOUT,
            callback = CB_watchdog (DoorState d)\<rparr> \<in> set (timers (doActivateDoor ok True d))
        \<and> DoorState (doActivateDoor ok True d) = DoorState d
        \<and> gpio_written (doActivateDoor ok True d)
            = gpio_written d @ (if ok then [(gpioChanCtrlRequest d, False)] else [])
        \<and> (ok \<longrightarrow>
             \<lparr>timer_id = Suc (nextTimerId d), due = now d + DOOR_CTRL_REQ_TIME,
              callback = CB_gpio_write (gpioChanCtrlRequest d) True\<rparr>
               \<in> set (timers (doActivateDoor ok True d))))"
proof (intro conjI impI)
  assume "\<not> initialized d \<or> truthy (DoorLocked d)"
  then show "doActivateDoor ok False d = d"
    by (intro doActivateDoor_gate_closed) auto
next
  assume "\<not> initialized d"
  then show "doActivateDoor ok overrideLock d = d"
    by (intro doActivateDoor_gate_closed) auto
next
  assume i: "initialized d"
  note f = doActivateDoor_fields [OF i, of True ok] and t = doActivateDoor_timers [OF i, of True ok]
  show "doorActivationWatchdogId (doActivateDoor ok True d) = Some (nextTimerId d)"
    using f by simp
  show "\<lparr>timer_id = nextTimerId d, due = now d + DOOR_ACTIVATION_TIMEOUT,
          callback = CB_watchdog (DoorState d)\<rparr> \<in> set (timers (doActivateDoor ok True d))"
    using t by (simp add: DOOR_ACTIVATION_TIMEOUT_def DoorState_def)
  show "DoorState (doActivateDoor ok True d) = DoorState d"
    using f by (simp add: DoorState_def)
  show "gpio_written (doActivateDoor ok True d)
          = gpio_written d @ (if ok then [(gpioChanCtrlRequest d, False)] else [])"
    using f by simp
  show "\<lparr>timer_id = Suc (nextTimerId d), due = now d + DOOR_CTRL_REQ_TIME,
          callback = CB_gpio_write (gpioChanCtrlRequest d) True\<rparr>
          \<in> set (timers (doActivateDoor ok True d))" if ok
    using t that by (simp add: DOOR_CTRL_REQ_TIME_def)
qed

theorem activation_lock_gate_witness:
  "doActivateDoor True False example_locked_door = example_locked_door
   \<and> doActivateDoor True True (example_door\<lparr>initialized := False\<rparr>)
       = example_door\<lparr>initialized := False\<rparr>
   \<and> doorActivationWatchdogId (doActivateDoor True True example_locked_door) = Some 0
   \<and> gpio_written (doActivateDoor True True example_locked_door)
       = [(JNumber 1, True), (JNumber 2, False)]
   \<and> \<lparr>timer_id = 1, due = 100, callback = CB_gpio_write (JNumber 2) True\<rparr>
       \<in> set (timers (doActivateDoor True True example_locked_door))"
proof -
  have l: "\<not> initialized example_locked_door \<or> truthy (DoorLocked example_locked_door)"
    and i: "initialized example_locked_door"
    and u: "\<not> initialized (example_door\<lparr>initialized := False\<rparr>)"
    by (simp_all add: example_locked_door_def example_door_def DoorLocked_def)
  from activation_lock_gate [of example_locked_door True] l i
  have "doActivateDoor True False example_locked_door = example_locked_door"
    and "doorActivationWatchdogId (doActivateDoor True True example_locked_door)
           = Some (nextTimerId example_locked_door)"
    and "gpio_written (doActivateDoor True True example_locked_door)
           = gpio_written example_locked_door
             @ [(gpioChanCtrlRequest example_locked_door, False)]"
    and "\<lparr>timer_id = Suc (nextTimerId example_locked_door),
          due = now example_locked_door + DOOR_CTRL_REQ_TIME,
          callback = CB_gpio_write (gpioChanCtrlRequest example_locked_door) True\<rparr>
           \<in> set (timers (doActivateDoor True True example_locked_door))"
    by simp_all
  moreover
  from activation_lock_gate [of "example_door\<lparr>initialized := False\<rparr>" True True] u
  have "doActivateDoor True True (example_door\<lparr>initialized := False\<rparr>)
          = example_door\<lparr>initialized := False\<rparr>"
    by blast
  ultimately show ?thesis
    by (simp add: example_locked_door_def example_door_def DOOR_CTRL_REQ_TIME_def)
qed

section \<open>The activation watchdog\<close>

lemma updateDoorState_timers:
  "timers (updateDoorState ok s d) =
     filter (\<lambda>t. Some (timer_id t) \<noteq> doorActivationWatchdogId d) (timers d)
     @ [\<lparr>timer_id = nextTimerId d, due = now d + 1,
          callback = CB_emit_state_change (DoorState d) s\<rparr>]"
  by (cases "doorActivationWatchdogId d") (auto simp add: door_defs)

lemma updateDoorState_clears_watchdog:
  "watchdog_tracked d \<Longrightarrow>
   list_all (\<lambda>t. \<not> is_watchdog (callback t)) (timers (updateDoorState ok s d))"
  by (cases "doorActivationWatchdogId d")
     (auto simp add: door_defs watchdog_tracked_def list_all_iff split: if_splits)

text \<open>
  The invariant holds of a new door and is kept by every method and by every timer
  that fires, so it holds of every door the program reaches.
\<close>

lemma watchdog_tracked_constructor:
  "DoorController_constructor ar coerce t c = Inr (d, so, sc) \<Longrightarrow> watchdog_tracked d"
  by (auto simp add: DoorController_constructor_def watchdog_tracked_def
        split: if_splits sum.splits jsval.splits)

lemma watchdog_tracked_updateDoorState:
  "watchdog_tracked d \<Longrightarrow> watchdog_tracked (updateDoorState ok s d)"
  by (cases "doorActivationWatchdogId d")
     (auto simp add: door_defs watchdog_tracked_def list_all_iff split: if_splits)

lemma watchdog_tracked_doActivateDoor:
  "watchdog_tracked d \<Longrightarrow> watchdog_tracked (doActivateDoor ok overrideLock d)"
  by (cases "doorActivationWatchdogId d")
     (auto simp add: door_defs watchdog_tracked_def list_all_iff split: if_splits)

lemma watchdog_tracked_stateChange:
  "watchdog_tracked d \<Longrightarrow> watchdog_tracked (stateChange channel level d)"
  by (cases "debounceTimerIdDoorCntrl d")
     (auto simp add: stateChange_def door_defs watchdog_tracked_def list_all_iff
        DOOR_CNTRL_SWITCH_DEBOUNCE_def split: if_splits)

lemma watchdog_tracked_Terminate:
  "watchdog_tracked d \<Longrightarrow> watchdog_tracked (Terminate ok1 ok2 d)"
  by (cases "debounceTimerIdDoorCntrl d")
     (auto simp add: Terminate_def door_defs watchdog_tracked_def list_all_iff split: if_splits)

lemma watchdog_tracked_identify_step:
  "watchdog_tracked d \<Longrightarrow> watchdog_tracked (identify_step ok count d)"
  unfolding identify_step_def
  by (auto simp add: watchdog_tracked_updateDoorState)
     (auto simp add: door_defs watchdog_tracked_def list_all_iff
        DOOR_IDENTIFICATION_TOGGLE_TIMEOUT_def split: if_splits)

lemma watchdog_tracked_set_DoorLocked:
  "watchdog_tracked d \<Longrightarrow> watchdog_tracked (set_DoorLocked v d)"
  by (auto simp add: set_DoorLocked_def watchdog_tracked_def list_all_iff)

lemma watchdog_tracked_fired:
  assumes "watchdog_tracked d"
  shows "watchdog_tracked
           (door_fire io i cb (clearTimeout i (d\<lparr>now := max (now d) t\<rparr>)))"
proof -
  have c: "watchdog_tracked (clearTimeout i (d\<lparr>now := max (now d) t\<rparr>))"
    using assms by (auto simp add: watchdog_tracked_def clearTimeout_def list_all_iff)
  show ?thesis
  proof (cases cb)
    case (CB_gpio_write ch l)
    then show ?thesis using c by (auto simp add: gpio_write_def watchdog_tracked_def list_all_iff)
  next
    case (CB_emit_state_change a b)
    then show ?thesis using c by (auto simp add: watchdog_tracked_def list_all_iff)
  qed (use c in \<open>simp_all add: watchdog_tracked_doActivateDoor
         watchdog_tracked_updateDoorState watchdog_tracked_identify_step\<close>)
qed

text \<open>
  The loop picks a timer that is armed and due, and none that is due later than another.
  When every run of a timer keeps an invariant and lowers a measure, the loop stops
  within as many runs as the measure counts, with the invariant kept and nothing due.
\<close>

lemma earliest_None: "earliest ts = None \<longleftrightarrow> ts = []"
  by (cases ts) (auto split: option.splits if_splits)

lemma earliest_Some:
  "earliest ts = Some x \<Longrightarrow> x \<in> set ts \<and> (\<forall>y\<in>set ts. due x \<le> due y)"
proof (induction ts arbitrary: x)
  case Nil
  then show ?case by simp
next
  case (Cons a ts)
  show ?case
  proof (cases "earliest ts")
    case None
    then have "ts = []" by (simp add: earliest_None)
    with Cons.prems None show ?thesis by simp
  next
    case (Some y)
    with Cons.IH have "y \<in> set ts" "\<forall>z\<in>set ts. due y \<le> due z" by blast+
    with Cons.prems Some show ?thesis
      by (auto split: if_splits)
  qed
qed

lemma next_due_Some:
  "next_due T ts = Some x \<Longrightarrow>
   x \<in> set ts \<and> due x \<le> T \<and> (\<forall>y\<in>set ts. due y \<le> T \<longrightarrow> due x \<le> due y)"
  using earliest_Some [of "filter (\<lambda>x. due x \<le> T) ts" x]
  by (auto simp add: next_due_def)

lemma next_due_None: "next_due T ts = None \<longleftrightarrow> (\<forall>y\<in>set ts. \<not> due y \<le> T)"
  by (auto simp add: next_due_def earliest_None filter_empty_conv)

lemma run_timers_measure:
  assumes "I e" and "m e \<le> fuel"
    and step: "\<And>e x. I e \<Longrightarrow> next_due T (timers e) = Some x \<Longrightarrow>
          I (fire (timer_id x) (callback x)
               (clearTimeout (timer_id x) (e\<lparr>now := max (now e) (due x)\<rparr>)))
          \<and> m (fire (timer_id x) (callback x)
               (clearTimeout (timer_id x) (e\<lparr>now := max (now e) (due x)\<rparr>))) < m e"
  shows "\<exists>e0. run_timers fire fuel T e = Some (e0\<lparr>now := max (now e0) T\<rparr>)
            \<and> I e0 \<and> next_due T (timers e0) = None"
  using assms(1,2)
proof (induction fuel arbitrary: e)
  case 0
  show ?case
  proof (cases "next_due T (timers e)")
    case None
    with 0 show ?thesis by auto
  next
    case (Some x)
    with step [OF "0.prems"(1) Some] "0.prems"(2) show ?thesis by simp
  qed
next
  case (Suc fuel)
  show ?case
  proof (cases "next_due T (timers e)")
    case None
    with Suc.prems show ?thesis by auto
  next
    case (Some x)
    let ?e' = "fire (timer_id x) (callback x)
                 (clearTimeout (timer_id x) (e\<lparr>now := max (now e) (due x)\<rparr>))"
    from step [OF Suc.prems(1) Some] Suc.prems(2) have "I ?e'" "m ?e' \<le> fuel" by auto
    from Suc.IH [OF this] Some show ?thesis by simp
  qed
qed

lemma same_handle_same_timer:
  "distinct (map timer_id ts) \<Longrightarrow> x \<in> set ts \<Longrightarrow> y \<in> set ts \<Longrightarrow>
   timer_id y = timer_id x \<Longrightarrow> y = x"
  by (auto simp add: distinct_map inj_on_def)

lemma filter_commute: "filter P (filter Q xs) = filter Q (filter P xs)"
  by (induction xs) auto

lemma filter_fired_less:
  assumes "x \<in> set ts" "P x"
  shows "length (filter P (filter (\<lambda>t. timer_id t \<noteq> timer_id x) ts)) < length (filter P ts)"
proof -
  have "length (filter (\<lambda>t. timer_id t \<noteq> timer_id x) (filter P ts)) < length (filter P ts)"
    using assms by (intro length_filter_less [of x]) auto
  then show ?thesis by (simp only: filter_commute [of P])
qed

lemma filter_fired_le:
  "length (filter P (filter Q ts)) \<le> length (filter P ts)"
  by (simp only: filter_commute [of P]) (rule length_filter_le)

lemma handles_fresh_clearTimeout:
  "handles_fresh e \<Longrightarrow> handles_fresh (clearTimeout i e)"
  by (auto simp add: handles_fresh_def clearTimeout_def distinct_map_filter list_all_iff)

lemma handles_fresh_setTimeout:
  "handles_fresh e \<Longrightarrow> handles_fresh (snd (setTimeout cb ms e))"
  by (auto simp add: handles_fresh_def setTimeout_def list_all_iff)

text \<open>
  The handles of a new door are fresh, and they stay so through an update of the state
  and through an activation.
\<close>

lemma handles_fresh_constructor:
  "DoorController_constructor ar coerce t c = Inr (d, so, sc) \<Longrightarrow> handles_fresh d"
  by (auto simp add: DoorController_constructor_def handles_fresh_def
        split: if_splits sum.splits jsval.splits)

lemma handles_fresh_gpio_write:
  "handles_fresh (gpio_write ok channel level d) = handles_fresh d"
  by (simp add: gpio_write_def handles_fresh_def)

lemma handles_fresh_clear_if_defined:
  "handles_fresh d \<Longrightarrow> handles_fresh (clear_if_defined h d)"
  by (cases h) (simp_all add: clear_if_defined_def handles_fresh_clearTimeout)

lemma handles_fresh_updateDoorState:
  "handles_fresh d \<Longrightarrow> handles_fresh (updateDoorState ok s d)"
  by (cases "doorActivationWatchdogId d")
     (auto simp add: door_defs handles_fresh_def list_all_iff distinct_map_filter less_Suc_eq)

lemma handles_fresh_doActivateDoor:
  "handles_fresh d \<Longrightarrow> handles_fresh (doActivateDoor ok overrideLock d)"
  by (cases "doorActivationWatchdogId d"; cases ok)
     (auto simp add: door_defs handles_fresh_def list_all_iff distinct_map_filter less_Suc_eq)

text \<open>The door after the loop has taken the timer \<open>x\<close> off the list and run it.\<close>

lemma fired_line_write:
  assumes "x \<in> set (timers e)" "callback x = CB_gpio_write c l"
  shows "timers (door_fire io (timer_id x) (callback x)
                   (clearTimeout (timer_id x) (e\<lparr>now := max (now e) (due x)\<rparr>)))
           = filter (\<lambda>t. timer_id t \<noteq> timer_id x) (timers e)"
    and "state_change_emitted (door_fire io (timer_id x) (callback x)
                   (clearTimeout (timer_id x) (e\<lparr>now := max (now e) (due x)\<rparr>)))
           = state_change_emitted e"
    and "currentDoorState (door_fire io (timer_id x) (callback x)
                   (clearTimeout (timer_id x) (e\<lparr>now := max (now e) (due x)\<rparr>)))
           = currentDoorState e"
    and "doorActivationWatchdogId (door_fire io (timer_id x) (callback x)
                   (clearTimeout (timer_id x) (e\<lparr>now := max (now e) (due x)\<rparr>)))
           = doorActivationWatchdogId e"
    and "nextTimerId (door_fire io (timer_id x) (callback x)
                   (clearTimeout (timer_id x) (e\<lparr>now := max (now e) (due x)\<rparr>)))
           = nextTimerId e"
    and "now (door_fire io (timer_id x) (callback x)
                   (clearTimeout (timer_id x) (e\<lparr>now := max (now e) (due x)\<rparr>)))
           = max (now e) (due x)"
  using assms by (simp_all add: gpio_write_def clearTimeout_def)

text \<open>
  While the watchdog is armed, the run of any other timer that is due leaves it armed,
  and the run of the watchdog itself arms the notification.
\<close>

lemma watchdog_stage_line_write:
  assumes W: "watchdog_stage w dw s E e"
    and nd: "next_due T (timers e) = Some x"
    and x: "x \<noteq> \<lparr>timer_id = w, due = dw, callback = CB_watchdog s\<rparr>"
  shows "watchdog_stage w dw s E
           (door_fire io (timer_id x) (callback x)
              (clearTimeout (timer_id x) (e\<lparr>now := max (now e) (due x)\<rparr>)))"
proof -
  let ?wd = "\<lparr>timer_id = w, due = dw, callback = CB_watchdog s\<rparr>"
  from next_due_Some [OF nd] have xin: "x \<in> set (timers e)" and xT: "due x \<le> T"
    and xmin: "\<forall>y\<in>set (timers e). due y \<le> T \<longrightarrow> due x \<le> due y" by blast+
  from W have wd: "?wd \<in> set (timers e)" and d: "distinct (map timer_id (timers e))"
    and lw: "\<forall>t\<in>set (timers e). t = ?wd \<or> is_line_write (callback t)"
    by (auto simp add: watchdog_stage_def handles_fresh_def list_all_iff)
  from lw xin x have "is_line_write (callback x)" by blast
  then obtain c l where cb: "callback x = CB_gpio_write c l"
    by (cases "callback x") auto
  have "due x \<le> dw"
  proof (cases "dw \<le> T")
    case True
    with xmin wd show ?thesis by fastforce
  next
    case False
    with xT show ?thesis by simp
  qed
  moreover have "timer_id x \<noteq> w"
    using same_handle_same_timer [OF d xin wd] x by auto
  ultimately show ?thesis
    using W wd
    by (auto simp add: watchdog_stage_def fired_line_write [OF xin cb] handles_fresh_def
          distinct_map_filter list_all_iff)
qed

lemma watchdog_stage_fires:
  assumes W: "watchdog_stage w dw s E e"
    and nd: "next_due T (timers e) = Some \<lparr>timer_id = w, due = dw, callback = CB_watchdog s\<rparr>"
  shows "notification_stage (Suc dw) (s, s) E
           (door_fire io w (CB_watchdog s) (clearTimeout w (e\<lparr>now := max (now e) dw\<rparr>)))"
    and "length (filter (\<lambda>t. due t \<le> T)
           (timers (door_fire io w (CB_watchdog s) (clearTimeout w (e\<lparr>now := max (now e) dw\<rparr>)))))
         \<le> (if Suc dw \<le> T then 1 else 0)
           + length (filter (\<lambda>t. due t \<le> T) (filter (\<lambda>t. timer_id t \<noteq> w) (timers e)))"
    and "filter (\<lambda>t. is_watchdog (callback t))
           (timers (door_fire io w (CB_watchdog s) (clearTimeout w (e\<lparr>now := max (now e) dw\<rparr>))))
         = filter (\<lambda>t. is_watchdog (callback t)) (filter (\<lambda>t. timer_id t \<noteq> w) (timers e))"
proof -
  let ?wd = "\<lparr>timer_id = w, due = dw, callback = CB_watchdog s\<rparr>"
  from W have wd: "?wd \<in> set (timers e)" and d: "distinct (map timer_id (timers e))"
    and lw: "\<forall>t\<in>set (timers e). t = ?wd \<or> is_line_write (callback t)"
    and fr: "\<forall>t\<in>set (timers e). timer_id t < nextTimerId e"
    and h: "doorActivationWatchdogId e = Some w" and n: "now e \<le> dw"
    and st: "currentDoorState e = s" "state_change_emitted e = E"
    by (auto simp add: watchdog_stage_def handles_fresh_def list_all_iff)
  have t: "timers (door_fire io w (CB_watchdog s) (clearTimeout w (e\<lparr>now := max (now e) dw\<rparr>)))
        = filter (\<lambda>t. timer_id t \<noteq> w) (timers e)
          @ [\<lparr>timer_id = nextTimerId e, due = Suc dw, callback = CB_emit_state_change s s\<rparr>]"
    using h n st by (simp add: door_defs max_def)
  have e: "state_change_emitted
             (door_fire io w (CB_watchdog s) (clearTimeout w (e\<lparr>now := max (now e) dw\<rparr>))) = E"
    using h st by (simp add: door_defs)
  have rest: "\<forall>t\<in>set (filter (\<lambda>t. timer_id t \<noteq> w) (timers e)). is_line_write (callback t)"
    using lw by auto
  show "notification_stage (Suc dw) (s, s) E
           (door_fire io w (CB_watchdog s) (clearTimeout w (e\<lparr>now := max (now e) dw\<rparr>)))"
    unfolding notification_stage_def t e
    using rest d fr
    by (auto simp add: distinct_map_filter list_all_iff intro!: exI [of _ "nextTimerId e"])
  show "length (filter (\<lambda>t. due t \<le> T)
           (timers (door_fire io w (CB_watchdog s) (clearTimeout w (e\<lparr>now := max (now e) dw\<rparr>)))))
         \<le> (if Suc dw \<le> T then 1 else 0)
           + length (filter (\<lambda>t. due t \<le> T) (filter (\<lambda>t. timer_id t \<noteq> w) (timers e)))"
    unfolding t by simp
  show "filter (\<lambda>t. is_watchdog (callback t))
           (timers (door_fire io w (CB_watchdog s) (clearTimeout w (e\<lparr>now := max (now e) dw\<rparr>))))
         = filter (\<lambda>t. is_watchdog (callback t)) (filter (\<lambda>t. timer_id t \<noteq> w) (timers e))"
    unfolding t by simp
qed

text \<open>
  Once a notification is armed or out, the run of any timer that is due keeps it so,
  and by the time the notification is due the loop has emitted it.
\<close>

lemma notification_stage_step:
  assumes N: "notification_stage dk ev E e"
    and nd: "next_due T (timers e) = Some x"
  shows "notification_stage dk ev E
           (door_fire io (timer_id x) (callback x)
              (clearTimeout (timer_id x) (e\<lparr>now := max (now e) (due x)\<rparr>)))"
proof -
  from next_due_Some [OF nd] have xin: "x \<in> set (timers e)" by blast
  from N have d: "distinct (map timer_id (timers e))"
    by (simp add: notification_stage_def)
  show ?thesis
  proof (cases "is_line_write (callback x)")
    case True
    then obtain c l where cb: "callback x = CB_gpio_write c l"
      by (cases "callback x") auto
    from N consider
        (armed) k where "state_change_emitted e = E"
          "\<lparr>timer_id = k, due = dk, callback = CB_emit_state_change (fst ev) (snd ev)\<rparr>
             \<in> set (timers e)"
          "\<forall>t\<in>set (timers e).
             t = \<lparr>timer_id = k, due = dk, callback = CB_emit_state_change (fst ev) (snd ev)\<rparr>
             \<or> is_line_write (callback t)"
      | (fired) "state_change_emitted e = E @ [ev]"
          "\<forall>t\<in>set (timers e). is_line_write (callback t)"
      by (auto simp add: notification_stage_def list_all_iff)
    then show ?thesis
    proof cases
      case armed
      let ?em = "\<lparr>timer_id = k, due = dk, callback = CB_emit_state_change (fst ev) (snd ev)\<rparr>"
      from True have "?em \<noteq> x" by auto
      with same_handle_same_timer [OF d xin armed(2)] have "k \<noteq> timer_id x" by auto
      with armed d show ?thesis
        unfolding notification_stage_def fired_line_write [OF xin cb]
        by (auto simp add: distinct_map_filter list_all_iff intro!: exI [of _ k])
    next
      case fired
      with d show ?thesis
        unfolding notification_stage_def fired_line_write [OF xin cb]
        by (auto simp add: distinct_map_filter list_all_iff)
    qed
  next
    case False
    with N xin obtain k where em: "state_change_emitted e = E"
      and x: "x = \<lparr>timer_id = k, due = dk, callback = CB_emit_state_change (fst ev) (snd ev)\<rparr>"
      and lw: "\<forall>t\<in>set (timers e). t = x \<or> is_line_write (callback t)"
      by (auto simp add: notification_stage_def list_all_iff)
    have "\<forall>t\<in>set (filter (\<lambda>t. timer_id t \<noteq> k) (timers e)). is_line_write (callback t)"
      using lw x by auto
    with em d show ?thesis
      by (simp add: notification_stage_def x clearTimeout_def distinct_map_filter list_all_iff)
  qed
qed

lemma fired_timers_subset:
  assumes "x \<in> set (timers e)" "is_line_write (callback x) \<or> (\<exists>a b. callback x = CB_emit_state_change a b)"
  shows "timers (door_fire io (timer_id x) (callback x)
                   (clearTimeout (timer_id x) (e\<lparr>now := max (now e) (due x)\<rparr>)))
           = filter (\<lambda>t. timer_id t \<noteq> timer_id x) (timers e)"
  using assms by (cases "callback x") (auto simp add: gpio_write_def clearTimeout_def)

lemma notification_stage_less:
  assumes N: "notification_stage dk ev E e"
    and nd: "next_due T (timers e) = Some x"
  shows "due_by T (door_fire io (timer_id x) (callback x)
              (clearTimeout (timer_id x) (e\<lparr>now := max (now e) (due x)\<rparr>)))
         < due_by T e"
proof -
  from next_due_Some [OF nd] have xin: "x \<in> set (timers e)" and xT: "due x \<le> T" by blast+
  from N xin have "is_line_write (callback x) \<or> (\<exists>a b. callback x = CB_emit_state_change a b)"
    by (auto simp add: notification_stage_def list_all_iff)
  from fired_timers_subset [OF xin this, of io]
  have "due_by T (door_fire io (timer_id x) (callback x)
              (clearTimeout (timer_id x) (e\<lparr>now := max (now e) (due x)\<rparr>)))
        = length (filter (\<lambda>t. due t \<le> T) (filter (\<lambda>t. timer_id t \<noteq> timer_id x) (timers e)))"
    by (simp only: due_by_def)
  also have "\<dots> < due_by T e"
    unfolding due_by_def using xin xT by (rule filter_fired_less)
  finally show ?thesis .
qed

lemma notification_stage_run:
  assumes N: "notification_stage dk ev E e" and f: "due_by T e \<le> fuel" and T: "dk \<le> T"
  shows "\<exists>d2. run_timers (door_fire io) fuel T e = Some d2
           \<and> state_change_emitted d2 = E @ [ev]
           \<and> list_all (\<lambda>t. is_line_write (callback t)) (timers d2)"
proof -
  from run_timers_measure [of "notification_stage dk ev E" e "due_by T" fuel T "door_fire io",
      OF N f]
  obtain e0 where r: "run_timers (door_fire io) fuel T e = Some (e0\<lparr>now := max (now e0) T\<rparr>)"
    and s: "notification_stage dk ev E e0" and n: "next_due T (timers e0) = None"
    using notification_stage_step notification_stage_less by blast
  from n T have "\<lparr>timer_id = k, due = dk, callback = CB_emit_state_change (fst ev) (snd ev)\<rparr>
                   \<notin> set (timers e0)" for k
    by (auto simp add: next_due_None)
  with s have "state_change_emitted e0 = E @ [ev]"
    and "list_all (\<lambda>t. is_line_write (callback t)) (timers e0)"
    by (auto simp add: notification_stage_def)
  with r show ?thesis by simp
qed

text \<open>
  An activation that passes the gate, on a door with nothing pending that would update
  its state, arms the watchdog and leaves only line writes beside it. From there the
  loop reaches the timeout with one event, stays in the stage up to any earlier time,
  and a sensor-driven update replaces the watchdog by the notification of the update.
\<close>

lemma doActivateDoor_watchdog_stage:
  assumes "initialized d" "\<not> truthy (DoorLocked d) \<or> overrideLock"
    and "handles_fresh d" "no_update_pending d"
  shows "watchdog_stage (nextTimerId d) (now d + 30000) (currentDoorState d)
           (state_change_emitted d) (doActivateDoor ok overrideLock d)"
    and "length (timers (doActivateDoor ok overrideLock d)) \<le> length (timers d) + 2"
  using assms
  by (cases "doorActivationWatchdogId d"; cases ok;
      auto simp add: door_defs watchdog_stage_def handles_fresh_def no_update_pending_def
        list_all_iff distinct_map_filter less_Suc_eq
        intro: le_trans [OF length_filter_le])+

lemma watchdog_stage_run_before:
  assumes W: "watchdog_stage w dw s E a" and t: "t < dw" and f: "length (timers a) \<le> fuel"
  shows "\<exists>d1. run_timers (door_fire io) fuel t a = Some d1
           \<and> watchdog_stage w dw s E d1 \<and> length (timers d1) \<le> length (timers a)"
proof -
  let ?wd = "\<lparr>timer_id = w, due = dw, callback = CB_watchdog s\<rparr>"
  let ?I = "\<lambda>e. watchdog_stage w dw s E e \<and> length (timers e) \<le> length (timers a)"
  have step: "?I (door_fire io (timer_id x) (callback x)
                    (clearTimeout (timer_id x) (e\<lparr>now := max (now e) (due x)\<rparr>)))
              \<and> length (timers (door_fire io (timer_id x) (callback x)
                    (clearTimeout (timer_id x) (e\<lparr>now := max (now e) (due x)\<rparr>))))
                < length (timers e)"
    if I: "?I e" and nd: "next_due t (timers e) = Some x" for e x
  proof -
    from next_due_Some [OF nd] have xin: "x \<in> set (timers e)" and xt: "due x \<le> t" by blast+
    from xt t have x: "x \<noteq> ?wd" by auto
    with I xin have "is_line_write (callback x)"
      by (auto simp add: watchdog_stage_def list_all_iff)
    then have tm: "timers (door_fire io (timer_id x) (callback x)
                    (clearTimeout (timer_id x) (e\<lparr>now := max (now e) (due x)\<rparr>)))
                 = filter (\<lambda>t. timer_id t \<noteq> timer_id x) (timers e)"
      using fired_timers_subset [OF xin, of io] by blast
    have lt: "length (filter (\<lambda>t. timer_id t \<noteq> timer_id x) (timers e)) < length (timers e)"
      using xin by (intro length_filter_less [of x]) auto
    from I have "watchdog_stage w dw s E e" by simp
    from watchdog_stage_line_write [OF this nd x, of io] I tm lt show ?thesis
      by simp
  qed
  from run_timers_measure [of ?I a "\<lambda>e. length (timers e)" fuel t "door_fire io"] W f step
  obtain e0 where r: "run_timers (door_fire io) fuel t a = Some (e0\<lparr>now := max (now e0) t\<rparr>)"
    and s: "?I e0"
    by blast
  from s t have "?I (e0\<lparr>now := max (now e0) t\<rparr>)"
    by (auto simp add: watchdog_stage_def handles_fresh_def)
  with r show ?thesis by blast
qed

lemma watchdog_stage_run_to_timeout:
  assumes W: "watchdog_stage w dw s E a" and f: "Suc (length (timers a)) \<le> fuel"
  shows "\<exists>d'. run_timers (door_fire io) fuel (Suc dw) a = Some d'
           \<and> state_change_emitted d' = E @ [(s, s)]
           \<and> list_all (\<lambda>t. is_line_write (callback t)) (timers d')"
proof -
  let ?wd = "\<lparr>timer_id = w, due = dw, callback = CB_watchdog s\<rparr>"
  let ?I = "\<lambda>e. watchdog_stage w dw s E e \<or> notification_stage (Suc dw) (s, s) E e"
  let ?m = "\<lambda>e. due_by (Suc dw) e + (if ?wd \<in> set (timers e) then 1 else 0)"
  have nowd: "?wd \<notin> set (timers e)" if "notification_stage (Suc dw) (s, s) E e" for e
    using that by (auto simp add: notification_stage_def list_all_iff)
  have step: "?I (door_fire io (timer_id x) (callback x)
                    (clearTimeout (timer_id x) (e\<lparr>now := max (now e) (due x)\<rparr>)))
              \<and> ?m (door_fire io (timer_id x) (callback x)
                    (clearTimeout (timer_id x) (e\<lparr>now := max (now e) (due x)\<rparr>))) < ?m e"
    if I: "?I e" and nd: "next_due (Suc dw) (timers e) = Some x" for e x
    using I
  proof
    assume N: "notification_stage (Suc dw) (s, s) E e"
    from notification_stage_step [OF N nd, of io] notification_stage_less [OF N nd, of io]
      nowd [OF N] nowd [OF notification_stage_step [OF N nd, of io]]
    show ?thesis by simp
  next
    assume W': "watchdog_stage w dw s E e"
    from next_due_Some [OF nd] have xin: "x \<in> set (timers e)" and xt: "due x \<le> Suc dw"
      by blast+
    from W' have wd: "?wd \<in> set (timers e)" by (simp add: watchdog_stage_def)
    show ?thesis
    proof (cases "x = ?wd")
      case False
      from watchdog_stage_line_write [OF W' nd False, of io]
      have W2: "watchdog_stage w dw s E (door_fire io (timer_id x) (callback x)
                    (clearTimeout (timer_id x) (e\<lparr>now := max (now e) (due x)\<rparr>)))" .
      then have "?wd \<in> set (timers (door_fire io (timer_id x) (callback x)
                    (clearTimeout (timer_id x) (e\<lparr>now := max (now e) (due x)\<rparr>))))"
        by (simp add: watchdog_stage_def)
      moreover
      from W' xin False have "is_line_write (callback x)"
        by (auto simp add: watchdog_stage_def list_all_iff)
      then have "timers (door_fire io (timer_id x) (callback x)
                    (clearTimeout (timer_id x) (e\<lparr>now := max (now e) (due x)\<rparr>)))
                 = filter (\<lambda>t. timer_id t \<noteq> timer_id x) (timers e)"
        using fired_timers_subset [OF xin] by blast
      then have "due_by (Suc dw) (door_fire io (timer_id x) (callback x)
                    (clearTimeout (timer_id x) (e\<lparr>now := max (now e) (due x)\<rparr>)))
                 < due_by (Suc dw) e"
        unfolding due_by_def using filter_fired_less [OF xin, of "\<lambda>t. due t \<le> Suc dw"] xt
        by simp
      ultimately show ?thesis using W2 wd by simp
    next
      case True
      from nd True have nd': "next_due (Suc dw) (timers e) = Some ?wd" by simp
      note fr = watchdog_stage_fires [OF W' nd', of io]
      have "length (filter (\<lambda>t. due t \<le> Suc dw) (filter (\<lambda>t. timer_id t \<noteq> w) (timers e)))
            < due_by (Suc dw) e"
        unfolding due_by_def using filter_fired_less [OF wd, of "\<lambda>t. due t \<le> Suc dw"] by simp
      with fr(2) have "due_by (Suc dw) (door_fire io w (CB_watchdog s)
                         (clearTimeout w (e\<lparr>now := max (now e) dw\<rparr>))) \<le> due_by (Suc dw) e"
        by (simp add: due_by_def)
      with fr(1) nowd [OF fr(1)] wd True show ?thesis by simp
    qed
  qed
  have "due_by (Suc dw) a \<le> length (timers a)"
    by (simp add: due_by_def)
  with f have "?m a \<le> fuel"
    by simp
  from run_timers_measure [of ?I a ?m fuel "Suc dw" "door_fire io", OF _ this step] W
  obtain e0 where r: "run_timers (door_fire io) fuel (Suc dw) a
                        = Some (e0\<lparr>now := max (now e0) (Suc dw)\<rparr>)"
    and s: "?I e0" and n: "next_due (Suc dw) (timers e0) = None"
    by blast
  from n have none: "\<forall>y\<in>set (timers e0). \<not> due y \<le> Suc dw"
    by (simp add: next_due_None)
  from s none have "state_change_emitted e0 = E @ [(s, s)]
      \<and> list_all (\<lambda>t. is_line_write (callback t)) (timers e0)"
    by (fastforce simp add: watchdog_stage_def notification_stage_def)
  with r show ?thesis by simp
qed

lemma watchdog_stage_sensor_update:
  assumes W: "watchdog_stage w dw s E d1" and T: "now d1 < T" and f: "length (timers d1) \<le> fuel"
  shows "\<exists>d2. run_timers (door_fire io) fuel T
                 (sensorResultChanged ok
                    (d1\<lparr>openSensor_Result := open_r, closedSensor_Result := closed_r\<rparr>)) = Some d2
           \<and> state_change_emitted d2 = E @ [(s, determineDoorState open_r closed_r s)]
           \<and> list_all (\<lambda>t. is_line_write (callback t)) (timers d2)"
proof -
  let ?wd = "\<lparr>timer_id = w, due = dw, callback = CB_watchdog s\<rparr>"
  let ?u = "sensorResultChanged ok
              (d1\<lparr>openSensor_Result := open_r, closedSensor_Result := closed_r\<rparr>)"
  let ?n = "determineDoorState open_r closed_r s"
  from W have wd: "?wd \<in> set (timers d1)" and d: "distinct (map timer_id (timers d1))"
    and lw: "\<forall>t\<in>set (timers d1). t = ?wd \<or> is_line_write (callback t)"
    and fr: "\<forall>t\<in>set (timers d1). timer_id t < nextTimerId d1"
    and h: "doorActivationWatchdogId d1 = Some w"
    and st: "currentDoorState d1 = s" "state_change_emitted d1 = E"
    by (auto simp add: watchdog_stage_def handles_fresh_def list_all_iff)
  have t: "timers ?u = filter (\<lambda>t. timer_id t \<noteq> w) (timers d1)
          @ [\<lparr>timer_id = nextTimerId d1, due = Suc (now d1),
              callback = CB_emit_state_change s ?n\<rparr>]"
    using h st by (simp add: sensorResultChanged_def door_defs)
  have e: "state_change_emitted ?u = E"
    using h st by (simp add: sensorResultChanged_def door_defs)
  have rest: "\<forall>t\<in>set (filter (\<lambda>t. timer_id t \<noteq> w) (timers d1)). is_line_write (callback t)"
    using lw by auto
  have N: "notification_stage (Suc (now d1)) (s, ?n) E ?u"
    unfolding notification_stage_def t e
    using rest d fr
    by (auto simp add: distinct_map_filter list_all_iff intro!: exI [of _ "nextTimerId d1"])
  have "length (filter (\<lambda>t. timer_id t \<noteq> w) (timers d1)) < length (timers d1)"
    using wd by (intro length_filter_less [of ?wd]) auto
  moreover have "due_by T ?u \<le> length (timers ?u)"
    by (simp only: due_by_def length_filter_le)
  moreover have "length (timers ?u) = Suc (length (filter (\<lambda>t. timer_id t \<noteq> w) (timers d1)))"
    by (simp only: t length_append list.size)
  ultimately have "due_by T ?u \<le> fuel"
    using f by linarith
  from notification_stage_run [OF N this, of io] T show ?thesis by simp
qed

text \<open>
  C2. An activation that passes the gate arms a watchdog for 30 s that holds the door
  state of that moment, in the place of the watchdog the door held the handle of. On a
  door with nothing pending that would update its state (whatever else is armed is a
  line write or the watchdog the door holds the handle of), with handles that differ:
  when the loop then runs with no event from outside and no further activation, no
  \<open>state_change\<close> is emitted before the 30 s are over and the watchdog stays armed, and
  by 1 ms after them exactly one has been, carrying the state the watchdog held, with
  only line writes left; and when a sensor-driven update comes before the 30 s are over,
  the only event emitted, however long the loop runs on, is the one of that update, and
  only line writes are left. On every door whose armed watchdogs are the one it holds
  the handle of, a sensor-driven update leaves no watchdog armed.
\<close>

theorem activation_watchdog:
  assumes "initialized d" and "\<not> truthy (DoorLocked d) \<or> overrideLock"
  shows
    "doorActivationWatchdogId (doActivateDoor ok overrideLock d) = Some (nextTimerId d)
     \<and> \<lparr>timer_id = nextTimerId d, due = now d + DOOR_ACTIVATION_TIMEOUT,
         callback = CB_watchdog (DoorState d)\<rparr>
        \<in> set (timers (doActivateDoor ok overrideLock d))
     \<and> (handles_fresh d \<and> no_update_pending d \<longrightarrow>
          (\<exists>d'. run_timers (door_fire io) (length (timers d) + 3)
                   (now d + DOOR_ACTIVATION_TIMEOUT + 1)
                   (doActivateDoor ok overrideLock d) = Some d'
                \<and> state_change_emitted d'
                    = state_change_emitted d @ [(DoorState d, DoorState d)]
                \<and> list_all (\<lambda>t. is_line_write (callback t)) (timers d'))
          \<and> (\<forall>t < now d + DOOR_ACTIVATION_TIMEOUT.
               \<exists>d1. run_timers (door_fire io) (length (timers d) + 2) t
                       (doActivateDoor ok overrideLock d) = Some d1
                 \<and> state_change_emitted d1 = state_change_emitted d
                 \<and> doorActivationWatchdogId d1 = Some (nextTimerId d)
                 \<and> \<lparr>timer_id = nextTimerId d, due = now d + DOOR_ACTIVATION_TIMEOUT,
                     callback = CB_watchdog (DoorState d)\<rparr> \<in> set (timers d1)
                 \<and> (\<forall>T \<ge> now d + DOOR_ACTIVATION_TIMEOUT + 1.
                      \<exists>d2. run_timers (door_fire io') (length (timers d) + 2) T
                              (sensorResultChanged ok'
                                 (d1\<lparr>openSensor_Result := open_r,
                                     closedSensor_Result := closed_r\<rparr>)) = Some d2
                        \<and> state_change_emitted d2
                            = state_change_emitted d
                              @ [(DoorState d,
                                  determineDoorState open_r closed_r (DoorState d))]
                        \<and> list_all (\<lambda>t. is_line_write (callback t)) (timers d2))))
     \<and> (\<forall>x. watchdog_tracked x \<longrightarrow>
            list_all (\<lambda>t. \<not> is_watchdog (callback t)) (timers (sensorResultChanged ok' x)))"
proof (intro conjI impI allI)
  show "doorActivationWatchdogId (doActivateDoor ok overrideLock d) = Some (nextTimerId d)"
    using doActivateDoor_fields [OF assms] by simp
  show "\<lparr>timer_id = nextTimerId d, due = now d + DOOR_ACTIVATION_TIMEOUT,
          callback = CB_watchdog (DoorState d)\<rparr>
          \<in> set (timers (doActivateDoor ok overrideLock d))"
    using doActivateDoor_timers [OF assms]
    by (simp add: DOOR_ACTIVATION_TIMEOUT_def DoorState_def)
  show "list_all (\<lambda>t. \<not> is_watchdog (callback t)) (timers (sensorResultChanged ok' x))"
    if "watchdog_tracked x" for x
    using that by (simp add: sensorResultChanged_def updateDoorState_clears_watchdog)
next
  assume q: "handles_fresh d \<and> no_update_pending d"
  then have W: "watchdog_stage (nextTimerId d) (now d + 30000) (currentDoorState d)
                  (state_change_emitted d) (doActivateDoor ok overrideLock d)"
    and n: "length (timers (doActivateDoor ok overrideLock d)) \<le> length (timers d) + 2"
    using doActivateDoor_watchdog_stage [OF assms, of ok] by blast+
  have eq: "now d + DOOR_ACTIVATION_TIMEOUT + 1 = Suc (now d + 30000)"
    by (simp add: DOOR_ACTIVATION_TIMEOUT_def)
  from n have "Suc (length (timers (doActivateDoor ok overrideLock d))) \<le> length (timers d) + 3"
    by simp
  from watchdog_stage_run_to_timeout [OF W this, of io]
  show "\<exists>d'. run_timers (door_fire io) (length (timers d) + 3)
               (now d + DOOR_ACTIVATION_TIMEOUT + 1)
               (doActivateDoor ok overrideLock d) = Some d'
          \<and> state_change_emitted d' = state_change_emitted d @ [(DoorState d, DoorState d)]
          \<and> list_all (\<lambda>t. is_line_write (callback t)) (timers d')"
    unfolding eq DoorState_def .
next
  fix t
  assume q: "handles_fresh d \<and> no_update_pending d"
    and t: "t < now d + DOOR_ACTIVATION_TIMEOUT"
  from t have t': "t < now d + 30000" by (simp add: DOOR_ACTIVATION_TIMEOUT_def)
  from q have W: "watchdog_stage (nextTimerId d) (now d + 30000) (currentDoorState d)
                  (state_change_emitted d) (doActivateDoor ok overrideLock d)"
    and n: "length (timers (doActivateDoor ok overrideLock d)) \<le> length (timers d) + 2"
    using doActivateDoor_watchdog_stage [OF assms, of ok] by blast+
  from watchdog_stage_run_before [OF W t' n, of io] obtain d1
    where d1: "run_timers (door_fire io) (length (timers d) + 2) t
                 (doActivateDoor ok overrideLock d) = Some d1"
      and W1: "watchdog_stage (nextTimerId d) (now d + 30000) (currentDoorState d)
                 (state_change_emitted d) d1"
      and n1: "length (timers d1) \<le> length (timers (doActivateDoor ok overrideLock d))"
    by blast
  from W1 have e: "state_change_emitted d1 = state_change_emitted d"
    and h: "doorActivationWatchdogId d1 = Some (nextTimerId d)"
    and a: "\<lparr>timer_id = nextTimerId d, due = now d + DOOR_ACTIVATION_TIMEOUT,
             callback = CB_watchdog (DoorState d)\<rparr> \<in> set (timers d1)"
    and now1: "now d1 \<le> now d + 30000"
    by (simp_all add: watchdog_stage_def DOOR_ACTIVATION_TIMEOUT_def DoorState_def)
  from n n1 have f: "length (timers d1) \<le> length (timers d) + 2" by simp
  have "\<exists>d2. run_timers (door_fire io') (length (timers d) + 2) T
              (sensorResultChanged ok'
                 (d1\<lparr>openSensor_Result := open_r, closedSensor_Result := closed_r\<rparr>)) = Some d2
          \<and> state_change_emitted d2
              = state_change_emitted d
                @ [(DoorState d, determineDoorState open_r closed_r (DoorState d))]
          \<and> list_all (\<lambda>t. is_line_write (callback t)) (timers d2)"
    if "T \<ge> now d + DOOR_ACTIVATION_TIMEOUT + 1" for T
  proof -
    have T': "now d1 < T"
      using that now1 by (simp add: DOOR_ACTIVATION_TIMEOUT_def)
    from watchdog_stage_sensor_update [OF W1 T' f, where io = io' and ok = ok' and open_r = open_r and closed_r = closed_r]
    show ?thesis unfolding DoorState_def .
  qed
  with d1 e h a
  show "\<exists>d1. run_timers (door_fire io) (length (timers d) + 2) t
               (doActivateDoor ok overrideLock d) = Some d1
          \<and> state_change_emitted d1 = state_change_emitted d
          \<and> doorActivationWatchdogId d1 = Some (nextTimerId d)
          \<and> \<lparr>timer_id = nextTimerId d, due = now d + DOOR_ACTIVATION_TIMEOUT,
              callback = CB_watchdog (DoorState d)\<rparr> \<in> set (timers d1)
          \<and> (\<forall>T \<ge> now d + DOOR_ACTIVATION_TIMEOUT + 1.
               \<exists>d2. run_timers (door_fire io') (length (timers d) + 2) T
                       (sensorResultChanged ok'
                          (d1\<lparr>openSensor_Result := open_r,
                              closedSensor_Result := closed_r\<rparr>)) = Some d2
                 \<and> state_change_emitted d2
                     = state_change_emitted d
                       @ [(DoorState d, determineDoorState open_r closed_r (DoorState d))]
                 \<and> list_all (\<lambda>t. is_line_write (callback t)) (timers d2))"
    by blast
qed

theorem activation_watchdog_witness:
  "doorActivationWatchdogId (doActivateDoor True False example_busy_door) = Some 5
   \<and> \<lparr>timer_id = 5, due = 30040, callback = CB_watchdog DOOR_OPEN\<rparr>
        \<in> set (timers (doActivateDoor True False example_busy_door))
   \<and> (\<exists>d'. run_timers (door_fire all_io_succeeds) 4 30041
              (doActivateDoor True False example_busy_door) = Some d'
          \<and> state_change_emitted d' = [(DOOR_OPEN, DOOR_OPEN)]
          \<and> list_all (\<lambda>t. is_line_write (callback t)) (timers d'))
   \<and> (\<exists>d1. run_timers (door_fire all_io_succeeds) 3 5000
              (doActivateDoor True False example_busy_door) = Some d1
          \<and> state_change_emitted d1 = []
          \<and> (\<exists>d2. run_timers (door_fire all_io_succeeds) 3 40000
                     (sensorResultChanged True
                        (d1\<lparr>openSensor_Result := SR_UNDETECTED,
                            closedSensor_Result := SR_UNDETECTED\<rparr>)) = Some d2
                \<and> state_change_emitted d2 = [(DOOR_OPEN, DOOR_CLOSING)]
                \<and> list_all (\<lambda>t. is_line_write (callback t)) (timers d2)))
   \<and> list_all (\<lambda>t. \<not> is_watchdog (callback t))
        (timers (sensorResultChanged True (doActivateDoor True False example_busy_door)))"
proof -
  have i: "initialized example_busy_door"
    and l: "\<not> truthy (DoorLocked example_busy_door) \<or> False"
    and q: "handles_fresh example_busy_door \<and> no_update_pending example_busy_door"
    and n: "now example_busy_door = 40" "nextTimerId example_busy_door = 5"
      "length (timers example_busy_door) = 1"
    and e: "state_change_emitted example_busy_door = []"
    and s: "DoorState example_busy_door = DOOR_OPEN"
    by (simp_all add: example_busy_door_def example_door_def DoorLocked_def DoorState_def
          handles_fresh_def no_update_pending_def)
  have c: "determineDoorState SR_UNDETECTED SR_UNDETECTED DOOR_OPEN = DOOR_CLOSING"
    by (simp add: determineDoorState_def determineDoorState_first_chain_def
          determineDoorState_second_chain_def)
  have k: "watchdog_tracked (doActivateDoor True False example_busy_door)"
    by (simp add: example_busy_door_def example_door_def door_defs watchdog_tracked_def)
  have f: "(1::nat) + 3 = 4" "(1::nat) + 2 = 3" "40 + DOOR_ACTIVATION_TIMEOUT = 30040"
    "(30040::nat) + 1 = 30041"
    by (simp_all add: DOOR_ACTIVATION_TIMEOUT_def)
  note w = activation_watchdog [OF i l, of True all_io_succeeds all_io_succeeds True
      SR_UNDETECTED SR_UNDETECTED, unfolded n e s c append_Nil, unfolded f]
  from w have 1: "doorActivationWatchdogId (doActivateDoor True False example_busy_door) = Some 5"
    by (rule conjunct1)
  from w have 0: "\<lparr>timer_id = 5, due = 30040, callback = CB_watchdog DOOR_OPEN\<rparr>
        \<in> set (timers (doActivateDoor True False example_busy_door))"
    by blast
  from w q
  have 2: "\<exists>d'. run_timers (door_fire all_io_succeeds) 4 30041
                (doActivateDoor True False example_busy_door) = Some d'
          \<and> state_change_emitted d' = [(DOOR_OPEN, DOOR_OPEN)]
          \<and> list_all (\<lambda>t. is_line_write (callback t)) (timers d')"
    by blast
  from w q
  have 3: "\<forall>t < 30040.
            \<exists>d1. run_timers (door_fire all_io_succeeds) 3 t
                    (doActivateDoor True False example_busy_door) = Some d1
              \<and> state_change_emitted d1 = []
              \<and> (\<forall>T \<ge> 30041.
                   \<exists>d2. run_timers (door_fire all_io_succeeds) 3 T
                           (sensorResultChanged True
                              (d1\<lparr>openSensor_Result := SR_UNDETECTED,
                                  closedSensor_Result := SR_UNDETECTED\<rparr>)) = Some d2
                     \<and> state_change_emitted d2 = [(DOOR_OPEN, DOOR_CLOSING)]
                     \<and> list_all (\<lambda>t. is_line_write (callback t)) (timers d2))"
    by blast
  have a: "(5000::nat) < 30040" and b: "(30041::nat) \<le> 40000"
    by simp_all
  from 3 a b have 4: "\<exists>d1. run_timers (door_fire all_io_succeeds) 3 5000
              (doActivateDoor True False example_busy_door) = Some d1
          \<and> state_change_emitted d1 = []
          \<and> (\<exists>d2. run_timers (door_fire all_io_succeeds) 3 40000
                     (sensorResultChanged True
                        (d1\<lparr>openSensor_Result := SR_UNDETECTED,
                            closedSensor_Result := SR_UNDETECTED\<rparr>)) = Some d2
                \<and> state_change_emitted d2 = [(DOOR_OPEN, DOOR_CLOSING)]
                \<and> list_all (\<lambda>t. is_line_write (callback t)) (timers d2))"
    by blast
  from w k have 5: "list_all (\<lambda>t. \<not> is_watchdog (callback t))
        (timers (sensorResultChanged True (doActivateDoor True False example_busy_door)))"
    by blast
  from 1 0 2 4 5 show ?thesis
    by blast
qed

text \<open>
  Without the condition that the door is not activated again, the count of events
  fails. The door of the example is activated at 0 ms and again at 10 s, and no sensor
  reports anything: the second activation clears the watchdog of the first, so one
  watchdog is armed after the two, no \<open>state_change\<close> is out 30001 ms after the first
  activation, nor at 40 s, and the two activations have one event between them, at
  40001 ms.
\<close>

theorem activated_twice_one_event:
  "map_option (\<lambda>d. map callback (timers d)) (activated_twice 10000)
     = Some [CB_watchdog DOOR_OPEN, CB_gpio_write (JNumber 2) True]
   \<and> map_option state_change_emitted (activated_twice 30001) = Some []
   \<and> map_option state_change_emitted (activated_twice 40000) = Some []
   \<and> map_option state_change_emitted (activated_twice 100000) = Some [(DOOR_OPEN, DOOR_OPEN)]"
  by (simp add: activated_twice_def ActivateDoor_def all_io_succeeds_def example_door_def
        door_defs next_due_def run_timers_numeral)

section \<open>Updates of the door state\<close>

lemma setResult_same: "setResult (result s) s = s"
  by (simp add: setResult_def)

lemma updateDoorState_run:
  assumes "timers d = []"
  shows "\<exists>d'. run_timers (door_fire io) 1 (now d + 1) (updateDoorState ok s d) = Some d'
           \<and> state_change_emitted d' = state_change_emitted d @ [(DoorState d, s)]
           \<and> DoorState d' = s \<and> timers d' = []"
  using assms
  by (cases "doorActivationWatchdogId d") (auto simp add: door_defs next_due_def)

text \<open>
  C9. Every call of \<open>_updateDoorState\<close>, whatever the new state (the current one
  included), removes the timer whose handle is the watchdog's and arms one timer that
  emits \<open>state_change\<close> with the previous and the new state; nothing else changes in the
  list of timers. That timer, when it fires, adds exactly this event to those emitted;
  on a door with no other timer armed the loop has emitted it 1 ms later. The watchdog's
  callback and the end of the identification are calls of \<open>_updateDoorState\<close>. A sensor's
  \<open>_setResult\<close> with the result it already holds changes nothing.
\<close>

theorem updateDoorState_always_notifies:
  "timers (updateDoorState ok s d)
     = filter (\<lambda>t. Some (timer_id t) \<noteq> doorActivationWatchdogId d) (timers d)
       @ [\<lparr>timer_id = nextTimerId d, due = now d + 1,
            callback = CB_emit_state_change (DoorState d) s\<rparr>]
   \<and> state_change_emitted (updateDoorState ok s d) = state_change_emitted d
   \<and> DoorState (updateDoorState ok s d) = s
   \<and> state_change_emitted (door_fire io i (CB_emit_state_change (DoorState d) s) x)
       = state_change_emitted x @ [(DoorState d, s)]
   \<and> (timers d = [] \<longrightarrow>
        (\<exists>d'. run_timers (door_fire io) 1 (now d + 1) (updateDoorState ok (DoorState d) d)
                 = Some d'
              \<and> state_change_emitted d'
                  = state_change_emitted d @ [(DoorState d, DoorState d)]))
   \<and> door_fire io i (CB_watchdog s) d = updateDoorState (io i) s d
   \<and> identify_step ok
        (DOOR_TOTAL_IDENTIFICATION_TIMEOUT div DOOR_IDENTIFICATION_TOGGLE_TIMEOUT) d
       = updateDoorState ok (DoorState d) d
   \<and> setResult (result r) r = r"
proof (intro conjI impI)
  show "timers (updateDoorState ok s d)
     = filter (\<lambda>t. Some (timer_id t) \<noteq> doorActivationWatchdogId d) (timers d)
       @ [\<lparr>timer_id = nextTimerId d, due = now d + 1,
            callback = CB_emit_state_change (DoorState d) s\<rparr>]"
    by (rule updateDoorState_timers)
  show "state_change_emitted (updateDoorState ok s d) = state_change_emitted d"
    by (cases "doorActivationWatchdogId d") (auto simp add: door_defs)
  show "DoorState (updateDoorState ok s d) = s"
    by (cases "doorActivationWatchdogId d") (auto simp add: door_defs)
  show "state_change_emitted (door_fire io i (CB_emit_state_change (DoorState d) s) x)
       = state_change_emitted x @ [(DoorState d, s)]"
    by simp
  show "door_fire io i (CB_watchdog s) d = updateDoorState (io i) s d"
    by simp
  show "identify_step ok
        (DOOR_TOTAL_IDENTIFICATION_TIMEOUT div DOOR_IDENTIFICATION_TOGGLE_TIMEOUT) d
       = updateDoorState ok (DoorState d) d"
    by (simp add: identify_step_def)
  show "setResult (result r) r = r"
    by (rule setResult_same)
next
  assume "timers d = []"
  from updateDoorState_run [OF this, of io ok "DoorState d"]
  show "\<exists>d'. run_timers (door_fire io) 1 (now d + 1) (updateDoorState ok (DoorState d) d)
                 = Some d'
              \<and> state_change_emitted d'
                  = state_change_emitted d @ [(DoorState d, DoorState d)]"
    by blast
qed

theorem updateDoorState_always_notifies_witness:
  "map callback (timers (updateDoorState True DOOR_OPEN example_door))
     = [CB_emit_state_change DOOR_OPEN DOOR_OPEN]
   \<and> (\<exists>d'. run_timers (door_fire (\<lambda>i. True)) 1 1 (updateDoorState True DOOR_OPEN example_door)
             = Some d'
          \<and> state_change_emitted d' = [(DOOR_OPEN, DOOR_OPEN)])"
proof -
  have q: "timers example_door = []"
    and s: "DoorState example_door = DOOR_OPEN" and n: "now example_door = 0"
    and e: "state_change_emitted example_door = []"
    by (simp_all add: example_door_def DoorState_def)
  note w = updateDoorState_always_notifies [of True DOOR_OPEN example_door "\<lambda>i. True"]
  from w have "timers (updateDoorState True DOOR_OPEN example_door)
     = filter (\<lambda>t. Some (timer_id t) \<noteq> doorActivationWatchdogId example_door)
         (timers example_door)
       @ [\<lparr>timer_id = nextTimerId example_door, due = now example_door + 1,
            callback = CB_emit_state_change (DoorState example_door) DOOR_OPEN\<rparr>]"
    by (rule conjunct1)
  moreover from w q
  have "\<exists>d'. run_timers (door_fire (\<lambda>i. True)) 1 (now example_door + 1)
                (updateDoorState True (DoorState example_door) example_door) = Some d'
              \<and> state_change_emitted d'
                  = state_change_emitted example_door
                    @ [(DoorState example_door, DoorState example_door)]"
    by blast
  ultimately show ?thesis
    by (simp add: q s n e)
qed

section \<open>The soft lock\<close>

lemma DoorController_constructor_lock:
  "DoorController_constructor ar coerce t c = Inr (d, so, sc) \<Longrightarrow>
   typeof (doorLocked d) = ''boolean''"
  by (auto simp add: DoorController_constructor_def door_properties_valid_def
        split: if_splits sum.splits jsval.splits)

lemma doorLocked_kept:
  "doorLocked (doActivateDoor ok overrideLock d) = doorLocked d"
  "doorLocked (updateDoorState ok s d) = doorLocked d"
  "doorLocked (stateChange channel level d) = doorLocked d"
  "doorLocked (identify_step ok count d) = doorLocked d"
  "doorLocked (Terminate ok1 ok2 d) = doorLocked d"
  by (cases "doorActivationWatchdogId d"; cases "debounceTimerIdDoorCntrl d";
      auto simp add: door_defs stateChange_def identify_step_def Terminate_def)+

text \<open>The constructor accepts the configuration of the example.\<close>

lemma toUpperCase_open: "toUpperCase ''open'' = ''OPEN''"
  by (simp add: toUpperCase_def upper_char_def)

lemma toUpperCase_close: "toUpperCase ''close'' = ''CLOSE''"
  by (simp add: toUpperCase_def upper_char_def)

lemma toUpperCase_OPEN: "toUpperCase ''OPEN'' = ''OPEN''"
  by (simp add: toUpperCase_def upper_char_def)

lemma toUpperCase_CLOSE: "toUpperCase ''CLOSE'' = ''CLOSE''"
  by (simp add: toUpperCase_def upper_char_def)

lemma DoorController_constructor_example:
  "\<exists>d so sc. DoorController_constructor ar coerce 0 example_door_configuration
                 = Inr (d, Some (Sonar so), Some (Prox sc))
     \<and> doorLocked d = JBoolean True \<and> initialized d = False
     \<and> detectMax so = JNumber 0.5 \<and> gpioDetectIn sc = JNumber 5"
  by (simp add: DoorController_constructor_def example_door_configuration_def
        example_sonar_configuration_def door_properties_valid_def door_sensors_valid_def
        validateDetectionSensorConfig_def validate_configItem_def function_of_def
        SonarSensor_ValidateConfiguration_def ProximitySwitchSensor_ValidateConfiguration_def
        SonarSensor_constructor_def ProximitySwitchSensor_constructor_def
        hasOwnProperty_def hasOwnProperty_shadowed_def js_get_def number_gt_def number_ge_def
        Let_def toUpperCase_open toUpperCase_close toUpperCase_OPEN toUpperCase_CLOSE)

text \<open>
  C10. The setter leaves the whole door as it was when its argument is not a boolean;
  a lock that holds a boolean holds one after any call of the setter; and the
  constructor gives the lock a boolean. So a value that is no boolean never unlocks a
  locked door.
\<close>

theorem set_DoorLocked_only_booleans:
  "(typeof v \<noteq> ''boolean'' \<longrightarrow> set_DoorLocked v d = d)
   \<and> (typeof (DoorLocked d) = ''boolean'' \<longrightarrow>
        typeof (DoorLocked (set_DoorLocked v d)) = ''boolean'')
   \<and> (typeof v \<noteq> ''boolean'' \<and> truthy (DoorLocked d) \<longrightarrow>
        truthy (DoorLocked (set_DoorLocked v d)))
   \<and> (\<forall>ar coerce t c d0 so sc.
        DoorController_constructor ar coerce t c = Inr (d0, so, sc) \<longrightarrow>
        typeof (DoorLocked d0) = ''boolean'')"
  by (auto simp add: set_DoorLocked_def DoorLocked_def DoorController_constructor_lock)

theorem set_DoorLocked_only_booleans_witness:
  "set_DoorLocked (JNumber 0) example_locked_door = example_locked_door
   \<and> set_DoorLocked (JString ''false'') example_locked_door = example_locked_door
   \<and> truthy (DoorLocked (set_DoorLocked JUndefined example_locked_door))
   \<and> typeof (DoorLocked (set_DoorLocked (JBoolean False) example_locked_door)) = ''boolean''
   \<and> (\<exists>d so sc. DoorController_constructor exact_arithmetic (\<lambda>v. JNaN) 0
                   example_door_configuration
                   = Inr (d, so, sc)
          \<and> typeof (DoorLocked d) = ''boolean'')"
proof -
  have l: "truthy (DoorLocked example_locked_door)"
    and b: "typeof (DoorLocked example_locked_door) = ''boolean''"
    by (simp_all add: example_locked_door_def example_door_def DoorLocked_def)
  from DoorController_constructor_example [of exact_arithmetic "\<lambda>v. JNaN"] obtain d so sc
    where c: "DoorController_constructor exact_arithmetic (\<lambda>v. JNaN) 0
                   example_door_configuration
                = Inr (d, Some (Sonar so), Some (Prox sc))"
    by blast
  from set_DoorLocked_only_booleans [of JUndefined example_locked_door] c
  have "typeof (DoorLocked d) = ''boolean''"
    by blast
  with c have x: "\<exists>d so sc. DoorController_constructor exact_arithmetic (\<lambda>v. JNaN) 0
                   example_door_configuration
                   = Inr (d, so, sc)
          \<and> typeof (DoorLocked d) = ''boolean''"
    by blast
  have y: "set_DoorLocked (JNumber 0) example_locked_door = example_locked_door
   \<and> set_DoorLocked (JString ''false'') example_locked_door = example_locked_door
   \<and> truthy (DoorLocked (set_DoorLocked JUndefined example_locked_door))
   \<and> typeof (DoorLocked (set_DoorLocked (JBoolean False) example_locked_door)) = ''boolean''"
    using set_DoorLocked_only_booleans [of "JNumber 0" example_locked_door]
      set_DoorLocked_only_booleans [of "JString ''false''" example_locked_door]
      set_DoorLocked_only_booleans [of JUndefined example_locked_door]
      set_DoorLocked_only_booleans [of "JBoolean False" example_locked_door] l b
    by simp
  from x y show ?thesis
    by blast
qed

section \<open>Teardown of the door\<close>

lemma Terminate_timers:
  "timers (Terminate ok1 ok2 d)
     = filter (\<lambda>t. Some (timer_id t) \<noteq> debounceTimerIdDoorCntrl d) (timers d)"
  by (cases "debounceTimerIdDoorCntrl d") (auto simp add: Terminate_def door_defs)

lemma Terminate_outputs:
  "gpio_written (Terminate True True d)
     = gpio_written d @ [(gpioChanStateIndicator d, False), (gpioChanCtrlRequest d, True)]
   \<and> \<not> initialized (Terminate ok1 ok2 d)"
  by (cases "debounceTimerIdDoorCntrl d") (auto simp add: Terminate_def door_defs)

text \<open>
  C8. The door of the example is activated and then terminated. \<open>Terminate\<close> writes
  the indicator low and the relay high and leaves the door not initialised, but the
  activation watchdog stays armed: 30 s later it fires, writes the indicator high and
  emits a \<open>state_change\<close>.
\<close>

theorem Terminate_leaves_watchdog_armed:
  "timers (Terminate True True (ActivateDoor True example_door))
     = [\<lparr>timer_id = 0, due = 30000, callback = CB_watchdog DOOR_OPEN\<rparr>,
        \<lparr>timer_id = 1, due = 100, callback = CB_gpio_write (JNumber 2) True\<rparr>]
   \<and> map_option (\<lambda>d. (gpio_written d, state_change_emitted d, initialized d))
       (run_timers (door_fire (\<lambda>i. True)) 3 30001
          (Terminate True True (ActivateDoor True example_door)))
     = Some ([(JNumber 1, True), (JNumber 2, False), (JNumber 1, False), (JNumber 2, True),
              (JNumber 2, True), (JNumber 1, True)],
             [(DOOR_OPEN, DOOR_OPEN)], False)"
  by (simp add: example_door_def ActivateDoor_def Terminate_def door_defs next_due_def
        run_timers_numeral)

theorem Terminate_leaves_watchdog_armed_witness:
  "\<lparr>timer_id = 0, due = 30000, callback = CB_watchdog DOOR_OPEN\<rparr>
     \<in> set (timers (Terminate True True (ActivateDoor True example_door)))"
  using Terminate_leaves_watchdog_armed by simp

section \<open>Debounce of the proximity switch\<close>

lemma prox_stateChange_cancels_nothing:
  assumes "debounceTimerIdSwitchState s = None"
  shows "debounceTimerIdSwitchState (prox_stateChange coerce channel level s) = None"
    and "JNumber channel = gpioDetectIn s \<Longrightarrow>
         timers (prox_stateChange coerce channel level s)
           = timers s @ [\<lparr>timer_id = nextTimerId s,
                           due = now s + timeout_delay (js_delay coerce (switchDebounce s)),
                           callback = CB_updateSwitchState level\<rparr>]"
  using assms
  by (simp_all add: prox_stateChange_def clear_if_defined_def setTimeout_def Let_def)

lemma ProximitySwitchSensor_constructor_handle:
  "ProximitySwitchSensor_constructor ar coerce t ident c = Inr s \<Longrightarrow>
   debounceTimerIdSwitchState s = None"
  by (auto simp add: ProximitySwitchSensor_constructor_def split: sum.splits)

lemma prox_fire_handle:
  "debounceTimerIdSwitchState (prox_fire i cb s) = debounceTimerIdSwitchState s"
  by (cases cb) (simp_all add: updateSwitchState_def setResult_def setTimeout_def Let_def)

text \<open>
  C4. On the proximity switch of the example (normally closed, debounce 1 s, result
  undetected) three edges arrive at 0, 100 and 200 ms with the levels high, low, high,
  and the loop then runs on. No edge cancels a timer: three debounce timers are armed
  after the third edge, and three changes of the result are published, not one.
\<close>

theorem prox_debounce_publishes_every_edge:
  "map_option (\<lambda>s. map callback (timers s))
     (prox_edges coerce 6 5 [(0, True), (100, False), (200, True)] example_prox)
     = Some [CB_updateSwitchState True, CB_updateSwitchState False, CB_updateSwitchState True]
   \<and> map_option result_changed_emitted
       (case prox_edges coerce 6 5 [(0, True), (100, False), (200, True)] example_prox of
          None \<Rightarrow> None
        | Some s \<Rightarrow> run_timers prox_fire 6 5000 s)
     = Some [(SR_UNDETECTED, SR_DETECTED), (SR_DETECTED, SR_UNDETECTED),
             (SR_UNDETECTED, SR_DETECTED)]"
  by (simp add: example_prox_def prox_stateChange_def clear_if_defined_def setTimeout_def
        clearTimeout_def Let_def next_due_def js_delay_def timeout_delay_def
        updateSwitchState_def convertSwitchReadToDetected_def setResult_def
        NORMALLY_CLOSED_def run_timers_numeral)

theorem prox_debounce_publishes_every_edge_witness:
  "map_option (\<lambda>s. length (timers s))
     (prox_edges (\<lambda>v. JNaN) 6 5 [(0, True), (100, False), (200, True)] example_prox) = Some 3"
proof -
  from prox_debounce_publishes_every_edge [of "\<lambda>v. JNaN"]
  have "map_option (\<lambda>s. map callback (timers s))
     (prox_edges (\<lambda>v. JNaN) 6 5 [(0, True), (100, False), (200, True)] example_prox)
     = Some [CB_updateSwitchState True, CB_updateSwitchState False, CB_updateSwitchState True]"
    by (rule conjunct1)
  then show ?thesis
    by (cases "prox_edges (\<lambda>v. JNaN) 6 5 [(0, True), (100, False), (200, True)] example_prox")
       auto
qed

section \<open>Construction from an invalid configuration\<close>





text \<open>
  On its own a sensor's constructor throws nothing for a configuration its validator
  rejects: it drops what the validator returns.
\<close>

lemma sensor_constructors_drop_the_validation:
  "SonarSensor_ValidateConfiguration c = Inr False \<Longrightarrow>
   \<exists>s. SonarSensor_constructor ar coerce t ident c = Inr s"
  "ProximitySwitchSensor_ValidateConfiguration c' = Inr False \<Longrightarrow>
   \<exists>s. ProximitySwitchSensor_constructor ar coerce t ident c' = Inr s"
  by (simp_all add: SonarSensor_constructor_def ProximitySwitchSensor_constructor_def)














lemma DoorController_constructor_example_inverted:
  "DoorController_constructor ar coerce t example_inverted_door_configuration
     = Inl (Error ''DoorController invalid configuration'')"
  by (simp add: DoorController_constructor_def example_inverted_door_configuration_def
        example_inverted_sonar_item_def example_prox_item_def
        door_properties_valid_def door_sensors_valid_def
        validateDetectionSensorConfig_def validate_configItem_def function_of_def
        SonarSensor_ValidateConfiguration_def ProximitySwitchSensor_ValidateConfiguration_def
        hasOwnProperty_def hasOwnProperty_shadowed_def js_get_def number_gt_def number_ge_def
        Let_def)



section \<open>Validation of the sonar configuration\<close>

lemma SonarSensor_ValidateConfiguration_bundled_is_specified:
  "SonarSensor_ValidateConfiguration_bundled c
     = (if hasOwnProperty_shadowed c then Inl TypeError
        else Inr (spec_sonar_configuration_accepted c))"
proof -
  have gt0: "number_gt a b \<Longrightarrow> number_ge b (JNumber 0) \<Longrightarrow> number_gt a (JNumber 0)" for a b
    by (auto simp add: number_ge_def number_gt_def split: jsval.splits)
  show ?thesis
    unfolding SonarSensor_ValidateConfiguration_bundled_def spec_sonar_configuration_accepted_def
      MINIMUM_SONAR_POLLING_INTERVAL_def
    using gt0 by auto
qed

lemma SonarSensor_ValidateConfiguration_accepts_specified:
  "spec_sonar_configuration_accepted c \<Longrightarrow>
   SonarSensor_ValidateConfiguration c
     = (if hasOwnProperty_shadowed c then Inl TypeError else Inr True)"
  unfolding SonarSensor_ValidateConfiguration_def spec_sonar_configuration_accepted_def
    MINIMUM_SONAR_POLLING_INTERVAL_def
  by (auto split: if_splits)

text \<open>
  C6. The validator of \<open>sonarSensor.js\<close> accepts a configuration whose minimum detect
  threshold is negative, and one whose change threshold is negative; the condition of
  the specification rejects both. The constructor gives a configuration with a polling
  interval and no change threshold the threshold \<open>undefined\<close>, not 0.08. (The validator
  of the bundled build is the condition of the specification, and what the condition
  accepts the validator of \<open>sonarSensor.js\<close> accepts: the two lemmas above.)
\<close>

theorem SonarSensor_ValidateConfiguration_misses_bounds:
  "SonarSensor_ValidateConfiguration
     [(''trigger_out'', JNumber 23), (''echo_in'', JNumber 24),
      (''detect_threshold_min'', JNumber (- 1)), (''detect_threshold_max'', JNumber 0.5)]
     = Inr True
   \<and> \<not> spec_sonar_configuration_accepted
     [(''trigger_out'', JNumber 23), (''echo_in'', JNumber 24),
      (''detect_threshold_min'', JNumber (- 1)), (''detect_threshold_max'', JNumber 0.5)]
   \<and> SonarSensor_ValidateConfiguration
     ((''distance_threshold_change_notification'', JNumber (- 1)) # example_sonar_configuration)
     = Inr True
   \<and> \<not> spec_sonar_configuration_accepted
     ((''distance_threshold_change_notification'', JNumber (- 1)) # example_sonar_configuration)
   \<and> spec_sonar_configuration_accepted
       ((''polling_interval'', JNumber 1) # example_sonar_configuration)
   \<and> map_sum (\<lambda>e. e) distanceThreshold
       (SonarSensor_constructor ar coerce t ident
          ((''polling_interval'', JNumber 1) # example_sonar_configuration))
     = Inr JUndefined"
  by (simp add: SonarSensor_ValidateConfiguration_def spec_sonar_configuration_accepted_def
        SonarSensor_constructor_def example_sonar_configuration_def
        MINIMUM_SONAR_POLLING_INTERVAL_def hasOwnProperty_shadowed_def
        hasOwnProperty_def js_get_def number_gt_def number_ge_def Let_def)

theorem SonarSensor_ValidateConfiguration_misses_bounds_witness:
  "SonarSensor_ValidateConfiguration
     [(''trigger_out'', JNumber 23), (''echo_in'', JNumber 24),
      (''detect_threshold_min'', JNumber (- 1)), (''detect_threshold_max'', JNumber 0.5)]
     = Inr True"
  using SonarSensor_ValidateConfiguration_misses_bounds by (rule conjunct1)

section \<open>The sonar measurement\<close>

lemma js_ge_numbers [simp]: "js_ge coerce (JNumber x) (JNumber y) = (x \<ge> y)"
  by (simp add: js_ge_def)

lemma js_le_numbers [simp]: "js_le coerce (JNumber x) (JNumber y) = (x \<le> y)"
  by (simp add: js_le_def)

lemma setResult_pending:
  "result_changed_pending (setResult r s)
     = result_changed_pending s
       @ (if result s = r then [] else [CB_emit_result_changed (result s) r])"
  by (simp add: setResult_def result_changed_pending_def setTimeout_def Let_def)

lemma setResult_result: "result (setResult r s) = r"
  by (simp add: setResult_def setTimeout_def Let_def)

lemma setResult_lastDistanceReading:
  "lastDistanceReading (setResult r s) = lastDistanceReading s"
  by (simp add: setResult_def setTimeout_def Let_def)

lemma performDistanceMeasurement_distance:
  "lastDistanceReading (performDistanceMeasurement ar coerce t fin s)
     = fl_divide ar (fl_times ar 343.0 (fl_divide ar t 1000.0)) 2.0"
  by (simp add: performDistanceMeasurement_def Let_def setResult_lastDistanceReading
        NOMINAL_SPEED_OF_SOUND_def setTimeout_def)

lemma performDistanceMeasurement_result:
  assumes "detectMin s = JNumber lo" "detectMax s = JNumber hi"
  shows "result (performDistanceMeasurement ar coerce t fin s)
         = (if lo \<le> fl_divide ar (fl_times ar 343.0 (fl_divide ar t 1000.0)) 2.0
               \<and> fl_divide ar (fl_times ar 343.0 (fl_divide ar t 1000.0)) 2.0 \<le> hi
            then SR_DETECTED else SR_UNDETECTED)"
  using assms
  by (simp add: performDistanceMeasurement_def Let_def setResult_result
        NOMINAL_SPEED_OF_SOUND_def setTimeout_def)

lemma performDistanceMeasurement_pending:
  "result_changed_pending (performDistanceMeasurement ar coerce t fin s)
     = result_changed_pending s
       @ (if result s = result (performDistanceMeasurement ar coerce t fin s) then []
          else [CB_emit_result_changed (result s)
                  (result (performDistanceMeasurement ar coerce t fin s))])"
  by (simp add: performDistanceMeasurement_def Let_def setResult_result setResult_pending)
     (simp add: result_changed_pending_def setTimeout_def)

text \<open>
  C7. For an elapsed time \<open>t \<ge> 0\<close> in milliseconds and a sensor whose detect thresholds
  are the numbers \<open>lo\<close> and \<open>hi\<close>, the measurement stores as the distance what the
  doubles' arithmetic \<open>ar\<close> makes of \<open>343.0 * (t / 1000.0) / 2.0\<close>, each of the three
  operations rounded as \<open>ar\<close> rounds it; the result afterwards is detected if and only if
  \<open>lo \<le> distance \<le> hi\<close> for that distance, and undetected otherwise; and one emission
  of \<open>result_changed\<close> with the old and the new result is scheduled when the result
  changed, and none when it did not.
\<close>

theorem performDistanceMeasurement_distance_and_result:
  assumes "0 \<le> t" and "detectMin s = JNumber lo" and "detectMax s = JNumber hi"
  shows
    "lastDistanceReading (performDistanceMeasurement ar coerce t fin s)
       = fl_divide ar (fl_times ar 343.0 (fl_divide ar t 1000.0)) 2.0
     \<and> (result (performDistanceMeasurement ar coerce t fin s) = SR_DETECTED
          \<longleftrightarrow> lo \<le> lastDistanceReading (performDistanceMeasurement ar coerce t fin s)
              \<and> lastDistanceReading (performDistanceMeasurement ar coerce t fin s) \<le> hi)
     \<and> (result (performDistanceMeasurement ar coerce t fin s) = SR_UNDETECTED
          \<longleftrightarrow> \<not> (lo \<le> lastDistanceReading (performDistanceMeasurement ar coerce t fin s)
                 \<and> lastDistanceReading (performDistanceMeasurement ar coerce t fin s) \<le> hi))
     \<and> result_changed_pending (performDistanceMeasurement ar coerce t fin s)
         = result_changed_pending s
           @ (if result s = result (performDistanceMeasurement ar coerce t fin s) then []
              else [CB_emit_result_changed (result s)
                      (result (performDistanceMeasurement ar coerce t fin s))])"
  using performDistanceMeasurement_distance [of ar coerce t fin s]
    performDistanceMeasurement_result [OF assms(2,3), of ar coerce t fin]
    performDistanceMeasurement_pending [of ar coerce t fin s]
  by simp

theorem performDistanceMeasurement_distance_and_result_witness:
  "lastDistanceReading
     (performDistanceMeasurement exact_arithmetic (\<lambda>v. JNaN) 2 1000 example_sonar) = 0.343
   \<and> result (performDistanceMeasurement exact_arithmetic (\<lambda>v. JNaN) 2 1000 example_sonar)
       = SR_DETECTED
   \<and> result_changed_pending
       (performDistanceMeasurement exact_arithmetic (\<lambda>v. JNaN) 2 1000 example_sonar)
       = [CB_emit_result_changed SR_UNKNOWN SR_DETECTED]"
proof -
  have t: "(0::real) \<le> 2"
    and lo: "detectMin example_sonar = JNumber 0.10"
    and hi: "detectMax example_sonar = JNumber 0.50"
    and p: "result_changed_pending example_sonar = []"
    and r: "result example_sonar = SR_UNKNOWN"
    by (simp_all add: example_sonar_def result_changed_pending_def)
  let ?m = "performDistanceMeasurement exact_arithmetic (\<lambda>v. JNaN) 2 1000 example_sonar"
  note w = performDistanceMeasurement_distance_and_result
    [OF t lo hi, of exact_arithmetic "\<lambda>v. JNaN" 1000]
  from w have "lastDistanceReading ?m
      = fl_divide exact_arithmetic
          (fl_times exact_arithmetic 343.0 (fl_divide exact_arithmetic 2 1000.0)) 2.0"
    by (rule conjunct1)
  then have d: "lastDistanceReading ?m = 0.343"
    by (simp add: exact_arithmetic_def)
  from w have "result ?m = SR_DETECTED
      \<longleftrightarrow> 0.10 \<le> lastDistanceReading ?m \<and> lastDistanceReading ?m \<le> 0.50"
    by blast
  then have x: "result ?m = SR_DETECTED"
    unfolding d by simp
  from w have "result_changed_pending ?m
      = result_changed_pending example_sonar
        @ (if result example_sonar = result ?m then []
           else [CB_emit_result_changed (result example_sonar) (result ?m)])"
    by blast
  then have "result_changed_pending ?m = [CB_emit_result_changed SR_UNKNOWN SR_DETECTED]"
    unfolding x p r by simp
  with d x show ?thesis
    by blast
qed

end
